theory Spec2Isabelle
  imports Complex_Main
begin

section \<open>JavaScript values\<close>

text \<open>
  The controllers are JavaScript/TypeScript request handlers. Values that travel through
  the cache as JSON, and the free-form parts of a request, are JavaScript values. Numbers
  are modelled as rationals: \<open>NaN\<close> is written as \<open>None\<close> where a conversion can produce
  it, and rounding of IEEE doubles is not modelled.
\<close>

datatype jsval =
    JUndefined
  | JNull
  | JBool bool
  | JNum rat
  | JStr string
  | JArr "jsval list"
  | JObj "(string \<times> jsval) list"

text \<open>The truthiness test behind \<^verbatim>\<open>if (x)\<close>, \<^verbatim>\<open>!x\<close> and \<^verbatim>\<open>x || y\<close>.\<close>

fun truthy :: "jsval \<Rightarrow> bool" where
  "truthy JUndefined = False"
| "truthy JNull = False"
| "truthy (JBool b) = b"
| "truthy (JNum n) = (n \<noteq> 0)"
| "truthy (JStr s) = (s \<noteq> [])"
| "truthy (JArr xs) = True"
| "truthy (JObj kvs) = True"

text \<open>
  A request field of a declared type may still be absent (\<^verbatim>\<open>undefined\<close>) at run time:
  such fields are options, embedded into \<^typ>\<open>jsval\<close> for the truthiness test.
\<close>

fun js_str :: "string option \<Rightarrow> jsval" where
  "js_str None = JUndefined"
| "js_str (Some s) = JStr s"

fun js_num :: "rat option \<Rightarrow> jsval" where
  "js_num None = JUndefined"
| "js_num (Some n) = JNum n"

fun js_val :: "jsval option \<Rightarrow> jsval" where
  "js_val None = JUndefined"
| "js_val (Some v) = v"

text \<open>
  Property access \<^verbatim>\<open>v.k\<close>: a \<^verbatim>\<open>TypeError\<close> (\<open>None\<close>) on \<^verbatim>\<open>null\<close> and
  \<^verbatim>\<open>undefined\<close>, the stored value on an object that has the key, \<^verbatim>\<open>undefined\<close>
  otherwise.
\<close>

fun get_prop :: "jsval \<Rightarrow> string \<Rightarrow> jsval option" where
  "get_prop JUndefined k = None"
| "get_prop JNull k = None"
| "get_prop (JObj kvs) k = (case map_of kvs k of None \<Rightarrow> Some JUndefined | Some v \<Rightarrow> Some v)"
| "get_prop v k = Some JUndefined"

text \<open>A template literal prints an absent value as the word \<^verbatim>\<open>undefined\<close>.\<close>

fun tmpl :: "string option \<Rightarrow> string" where
  "tmpl None = ''undefined''"
| "tmpl (Some s) = s"

section \<open>Documents\<close>

record user =
  u_id :: string
  u_name :: string
  role :: string

record photo =
  public_id :: string
  url :: string

text \<open>
  A product document. The handlers assign request values to name, price, stock, category and
  description as they arrive, so these fields hold JavaScript values; the casts and
  validators of the schema (\<^verbatim>\<open>models/product\<close>, not among the sources) are not modelled.
\<close>

record product =
  p_id :: string
  name :: jsval
  price :: jsval
  stock :: jsval
  category :: jsval
  description :: jsval
  photos :: "photo list"
  ratings :: rat
  numOfReviews :: nat

record order_item =
  productId :: string
  quantity :: rat

record order =
  o_id :: string
  shippingInfo :: jsval
  orderItems :: "order_item list"
  o_user :: string
  subtotal :: rat
  tax :: rat
  shippingCharges :: "rat option"
  discount :: "rat option"
  total :: rat
  status :: string

record review =
  r_id :: string
  comment :: string
  rating :: rat
  r_user :: string
  r_product :: string

text \<open>What a handler serialises or sends: parsed JSON, documents, arrays and objects of them.\<close>

datatype payload =
    PVal jsval
  | PProduct product
  | POrder order
  | PReview review
  | PList "payload list"
  | PObj "(string \<times> payload) list"

section \<open>Store, cache and collaborators\<close>

type_synonym redis = "string \<rightharpoonup> string \<times> nat"

text \<open>
  The state a handler works on: the four collections of the document store in their natural
  order, the cache (key to serialised value and the time to live it was stored with; the
  passing of time is not modelled), and the public ids handed to the image host for deletion.
\<close>

record state =
  users :: "user list"
  products :: "product list"
  orders :: "order list"
  reviews :: "review list"
  cache :: redis
  deleted_images :: "string list"

type_synonym store = "user list \<times> product list \<times> order list \<times> review list"

definition store_of :: "state \<Rightarrow> store" where
  "store_of st = (users st, products st, orders st, reviews st)"

text \<open>
  \<^verbatim>\<open>Model.findById\<close> and \<^verbatim>\<open>Model.findOne\<close>: the first document that matches, with its
  position, so that \<^verbatim>\<open>doc.save()\<close> writes that very document back.
\<close>

fun find_first :: "('a \<Rightarrow> bool) \<Rightarrow> 'a list \<Rightarrow> (nat \<times> 'a) option" where
  "find_first P [] = None"
| "find_first P (x # xs) =
     (if P x then Some (0, x)
      else (case find_first P xs of None \<Rightarrow> None | Some (i, y) \<Rightarrow> Some (Suc i, y)))"

definition findById :: "('a \<Rightarrow> string) \<Rightarrow> string \<Rightarrow> 'a list \<Rightarrow> (nat \<times> 'a) option" where
  "findById ident i xs = find_first (\<lambda>x. ident x = i) xs"

text \<open>The argument of \<^verbatim>\<open>invalidateCache\<close>; an absent flag is \<open>False\<close>, a single id a one-element list.\<close>

record invalidate_props =
  inv_product :: bool
  inv_order :: bool
  inv_admin :: bool
  inv_review :: bool
  inv_userId :: "string option"
  inv_orderId :: "string option"
  inv_productId :: "string list"

text \<open>The queries the handlers hand to the document store, as the source writes them.\<close>

record baseQuery =
  q_name :: "string option"
  q_price :: "rat option option"
  q_category :: "string option"

datatype sort_spec = NoSort | PriceAsc | PriceDesc

datatype query =
    Product_find_latest
  | Product_distinct_category
  | Product_find_all
  | Product_find_page baseQuery sort_spec rat rat
  | Product_find baseQuery
  | Review_find_product string
  | Order_find_user string
  | Order_find_all

text \<open>
  Everything the controllers import that is not part of them: the configured time to live,
  the JSON codec (\<open>None\<close> is a \<^verbatim>\<open>SyntaxError\<close>), the query engine of the document store,
  \<^verbatim>\<open>populate\<close>, the helpers of \<^verbatim>\<open>utils/features\<close>, the id generator of the store, and
  the number conversions of the language.
\<close>

record world =
  redisTTL :: nat
  JSON_parse :: "string \<Rightarrow> jsval option"
  JSON_stringify :: "payload \<Rightarrow> string"
  Model_find :: "query \<Rightarrow> store \<Rightarrow> payload list"
  populate :: "string \<Rightarrow> string \<Rightarrow> store \<Rightarrow> payload \<Rightarrow> payload"
  invalidateCache :: "invalidate_props \<Rightarrow> redis \<Rightarrow> redis"
  reduceStock :: "order_item list \<Rightarrow> product list \<Rightarrow> product list option"
  uploadToCloudinary :: "string list \<Rightarrow> photo list"
  new_ObjectId :: "store \<Rightarrow> string"
  Number_js :: "string option \<Rightarrow> rat option"
  String_num :: "rat \<Rightarrow> string"
  PRODUCT_PER_PAGE :: "string option"

text \<open>
  How a handler ends: \<^verbatim>\<open>res.status(c).json(body)\<close>, \<^verbatim>\<open>next(new ErrorHandler(msg, c))\<close>,
  \<^verbatim>\<open>next()\<close>, or an exception that leaves the handler body.
\<close>

datatype response =
    Json nat payload
  | NextErr string nat
  | Next
  | Threw

definition ok_message :: "string \<Rightarrow> payload" where
  "ok_message m = PObj [(''success'', PVal (JBool True)), (''message'', PVal (JStr m))]"

definition ok_with :: "string \<Rightarrow> payload \<Rightarrow> payload" where
  "ok_with k v = PObj [(''success'', PVal (JBool True)), (k, v)]"

section \<open>Order controller: status transition\<close>

text \<open>The \<^verbatim>\<open>switch (order.status)\<close> of \<^verbatim>\<open>processOrder\<close>.\<close>

definition next_status :: "string \<Rightarrow> string" where
  "next_status s =
     (if s = ''Processing'' then ''Shipped''
      else if s = ''Shipped'' then ''Delivered''
      else ''Delivered'')"

definition processOrder :: "world \<Rightarrow> string \<Rightarrow> state \<Rightarrow> response \<times> state" where
  "processOrder w ident st =
     (if ident = [] then (NextErr ''Order ID is required'' 400, st)
      else (case findById o_id ident (orders st) of
        None \<Rightarrow> (NextErr ''Order not found'' 404, st)
      | Some (i, ord) \<Rightarrow>
          (let ord' = ord\<lparr>status := next_status (status ord)\<rparr>;
               st1 = st\<lparr>orders := (orders st)[i := ord']\<rparr>;
               st2 = st1\<lparr>cache := invalidateCache w
                        \<lparr>inv_product = False, inv_order = True, inv_admin = True,
                         inv_review = False, inv_userId = Some (o_user ord'),
                         inv_orderId = Some (o_id ord'), inv_productId = []\<rparr> (cache st1)\<rparr>
           in (Json 200 (ok_message ''Order processed successfully''), st2))))"

text \<open>The position of a status in the life cycle; an unrecognised status counts as terminal.\<close>

definition status_rank :: "string \<Rightarrow> nat" where
  "status_rank s = (if s = ''Processing'' then 0 else if s = ''Shipped'' then 1 else 2)"

section \<open>Cache access\<close>

text \<open>\<^verbatim>\<open>redis.get(key)\<close>: the stored text, or \<^verbatim>\<open>null\<close> (\<open>None\<close>) when the key is not set.\<close>

definition redis_get :: "string \<Rightarrow> state \<Rightarrow> string option" where
  "redis_get key st = map_option fst (cache st key)"

text \<open>
  Every read handler tests the reply with \<^verbatim>\<open>if (reply)\<close>: \<^verbatim>\<open>null\<close> and the empty
  string both take the \<^verbatim>\<open>else\<close> branch.
\<close>

definition hit :: "string option \<Rightarrow> string option" where
  "hit reply = (if truthy (js_str reply) then reply else None)"

text \<open>\<^verbatim>\<open>redis.setex(key, ttl, value)\<close>.\<close>

definition redis_setex :: "string \<Rightarrow> nat \<Rightarrow> string \<Rightarrow> state \<Rightarrow> state" where
  "redis_setex key ttl v st = st\<lparr>cache := (cache st)(key \<mapsto> (v, ttl))\<rparr>"

text \<open>The branch all read handlers share on a truthy reply: parse it and send it under a name.\<close>

definition send_parsed :: "world \<Rightarrow> string \<Rightarrow> string \<Rightarrow> state \<Rightarrow> response \<times> state" where
  "send_parsed w field s st =
     (case JSON_parse w s of
        None \<Rightarrow> (Threw, st)
      | Some v \<Rightarrow> (Json 200 (ok_with field (PVal v)), st))"

text \<open>
  The parameterised cache keys, written in the source as the template literals
  \<^verbatim>\<open>my-orders-${userId}\<close>, \<^verbatim>\<open>order-${id}\<close>, \<^verbatim>\<open>product-${id}\<close> and \<^verbatim>\<open>reviews-${id}\<close>.
\<close>

definition my_orders_key :: "string option \<Rightarrow> string" where
  "my_orders_key userId = ''my-orders-'' @ tmpl userId"

definition order_key :: "string \<Rightarrow> string" where
  "order_key ident = ''order-'' @ ident"

definition product_key :: "string \<Rightarrow> string" where
  "product_key ident = ''product-'' @ ident"

definition reviews_key :: "string \<Rightarrow> string" where
  "reviews_key ident = ''reviews-'' @ ident"

section \<open>Order controller: reads and creation\<close>

text \<open>
  A query parameter is a string or absent. The query parser can also deliver arrays and
  nested objects; \<^verbatim>\<open>myOrders\<close> rejects them with the same 400 by its \<^verbatim>\<open>typeof\<close>
  test, and they are not modelled.
\<close>

definition myOrders :: "world \<Rightarrow> string option \<Rightarrow> state \<Rightarrow> response \<times> state" where
  "myOrders w userId st =
     (if \<not> truthy (js_str userId) then (NextErr ''Invalid user ID'' 400, st)
      else
        (let key = my_orders_key userId in
         case hit (redis_get key st) of
           Some s \<Rightarrow> send_parsed w ''orders'' s st
         | None \<Rightarrow>
             (let found = PList (Model_find w (Order_find_user (tmpl userId)) (store_of st))
              in (Json 200 (ok_with ''orders'' found),
                  redis_setex key (redisTTL w) (JSON_stringify w found) st))))"

definition allOrders :: "world \<Rightarrow> state \<Rightarrow> response \<times> state" where
  "allOrders w st =
     (let key = ''all-orders'' in
      case hit (redis_get key st) of
        Some s \<Rightarrow> send_parsed w ''orders'' s st
      | None \<Rightarrow>
          (let found = PList (Model_find w Order_find_all (store_of st))
           in (Json 200 (ok_with ''orders'' found),
               redis_setex key (redisTTL w) (JSON_stringify w found) st)))"

definition getSingleOrder :: "world \<Rightarrow> string \<Rightarrow> state \<Rightarrow> response \<times> state" where
  "getSingleOrder w ident st =
     (if ident = [] then (NextErr ''Order ID is required'' 400, st)
      else
        (let key = order_key ident in
         case hit (redis_get key st) of
           Some s \<Rightarrow> send_parsed w ''order'' s st
         | None \<Rightarrow>
             (case findById o_id ident (orders st) of
                None \<Rightarrow> (NextErr ''Order not found'' 404, st)
              | Some (i, ord) \<Rightarrow>
                  (let found = populate w ''user'' ''name'' (store_of st) (POrder ord)
                   in (Json 200 (ok_with ''order'' found),
                       redis_setex key (redisTTL w) (JSON_stringify w found) st)))))"

text \<open>
  The body of \<^verbatim>\<open>POST /order/new\<close>. Each field may be absent; a present array is
  truthy even when it is empty, so \<^verbatim>\<open>!orderItems\<close> holds only for an absent one.
\<close>

record NewOrderRequestBody =
  req_shippingInfo :: "jsval option"
  req_orderItems :: "order_item list option"
  req_user :: "string option"
  req_subtotal :: "rat option"
  req_tax :: "rat option"
  req_shippingCharges :: "rat option"
  req_discount :: "rat option"
  req_total :: "rat option"

definition missing_order_fields :: "NewOrderRequestBody \<Rightarrow> bool" where
  "missing_order_fields b \<longleftrightarrow>
     \<not> truthy (js_val (req_shippingInfo b)) \<or> req_orderItems b = None
     \<or> \<not> truthy (js_str (req_user b)) \<or> \<not> truthy (js_num (req_subtotal b))
     \<or> \<not> truthy (js_num (req_tax b)) \<or> \<not> truthy (js_num (req_total b))"

text \<open>
  \<^verbatim>\<open>Order.create\<close> appends the document; its id comes from the store, and its status is
  the schema default. Modelled from the spec: the initial status \<^verbatim>\<open>Processing\<close> (the schema,
  \<^verbatim>\<open>models/order\<close>, is not among the sources; its validation is not modelled). The handler
  creates the order only after its check, where every required field is present.
\<close>

definition Order_create :: "world \<Rightarrow> NewOrderRequestBody \<Rightarrow> state \<Rightarrow> order" where
  "Order_create w b st =
     \<lparr>o_id = new_ObjectId w (store_of st),
      shippingInfo = js_val (req_shippingInfo b),
      orderItems = (case req_orderItems b of None \<Rightarrow> [] | Some items \<Rightarrow> items),
      o_user = tmpl (req_user b),
      subtotal = (case req_subtotal b of None \<Rightarrow> 0 | Some n \<Rightarrow> n),
      tax = (case req_tax b of None \<Rightarrow> 0 | Some n \<Rightarrow> n),
      shippingCharges = req_shippingCharges b,
      discount = req_discount b,
      total = (case req_total b of None \<Rightarrow> 0 | Some n \<Rightarrow> n),
      status = ''Processing''\<rparr>"

definition newOrder :: "world \<Rightarrow> NewOrderRequestBody \<Rightarrow> state \<Rightarrow> response \<times> state" where
  "newOrder w b st =
     (if missing_order_fields b then (NextErr ''Please enter all required fields'' 400, st)
      else
        (let ord = Order_create w b st;
             st1 = st\<lparr>orders := orders st @ [ord]\<rparr>
         in case reduceStock w (orderItems ord) (products st1) of
              None \<Rightarrow> (Threw, st1)
            | Some ps \<Rightarrow>
                (let st2 = st1\<lparr>products := ps\<rparr>;
                     st3 = st2\<lparr>cache := invalidateCache w
                              \<lparr>inv_product = True, inv_order = True, inv_admin = True,
                               inv_review = False, inv_userId = req_user b,
                               inv_orderId = None,
                               inv_productId = map productId (orderItems ord)\<rparr> (cache st2)\<rparr>
                 in (Json 201 (ok_message ''Order placed successfully''), st3))))"

section \<open>Product controller: reads\<close>

definition getlatestProducts :: "world \<Rightarrow> state \<Rightarrow> response \<times> state" where
  "getlatestProducts w st =
     (case hit (redis_get ''latest-products'' st) of
        Some s \<Rightarrow> send_parsed w ''products'' s st
      | None \<Rightarrow>
          (let found = PList (Model_find w Product_find_latest (store_of st))
           in (Json 200 (ok_with ''products'' found),
               redis_setex ''latest-products'' (redisTTL w) (JSON_stringify w found) st)))"

definition getAllCategories :: "world \<Rightarrow> state \<Rightarrow> response \<times> state" where
  "getAllCategories w st =
     (case hit (redis_get ''categories'' st) of
        Some s \<Rightarrow> send_parsed w ''categories'' s st
      | None \<Rightarrow>
          (let found = PList (Model_find w Product_distinct_category (store_of st))
           in (Json 200 (ok_with ''categories'' found),
               redis_setex ''categories'' (redisTTL w) (JSON_stringify w found) st)))"

definition getAdminProducts :: "world \<Rightarrow> state \<Rightarrow> response \<times> state" where
  "getAdminProducts w st =
     (case hit (redis_get ''all-products'' st) of
        Some s \<Rightarrow> send_parsed w ''products'' s st
      | None \<Rightarrow>
          (let found = PList (Model_find w Product_find_all (store_of st))
           in (Json 200 (ok_with ''products'' found),
               redis_setex ''all-products'' (redisTTL w) (JSON_stringify w found) st)))"

definition getSingleProduct :: "world \<Rightarrow> string \<Rightarrow> state \<Rightarrow> response \<times> state" where
  "getSingleProduct w ident st =
     (let key = product_key ident in
      case hit (redis_get key st) of
        Some s \<Rightarrow> send_parsed w ''product'' s st
      | None \<Rightarrow>
          (case findById p_id ident (products st) of
             None \<Rightarrow> (NextErr ''Product Not Found'' 404, st)
           | Some (i, prd) \<Rightarrow>
               (Json 200 (ok_with ''product'' (PProduct prd)),
                redis_setex key (redisTTL w) (JSON_stringify w (PProduct prd)) st)))"

definition allReviewsOfProduct :: "world \<Rightarrow> string \<Rightarrow> state \<Rightarrow> response \<times> state" where
  "allReviewsOfProduct w ident st =
     (let key = reviews_key ident in
      case hit (redis_get key st) of
        Some s \<Rightarrow> send_parsed w ''reviews'' s st
      | None \<Rightarrow>
          (let found = PList (Model_find w (Review_find_product ident) (store_of st))
           in (Json 200 (ok_with ''reviews'' found),
               redis_setex key (redisTTL w) (JSON_stringify w found) st)))"

subsection \<open>The filtered, paginated listing\<close>

text \<open>The query string of \<^verbatim>\<open>GET /product/all\<close>.\<close>

record products_query =
  query_search :: "string option"
  query_sort :: "string option"
  query_category :: "string option"
  query_price :: "string option"
  query_page :: "string option"

text \<open>\<^verbatim>\<open>Number(x) || d\<close>: the default replaces \<^verbatim>\<open>NaN\<close> and zero.\<close>

definition number_or :: "world \<Rightarrow> string option \<Rightarrow> rat \<Rightarrow> rat" where
  "number_or w x d = (case Number_js w x of None \<Rightarrow> d | Some n \<Rightarrow> if n = 0 then d else n)"

definition products_key :: "world \<Rightarrow> products_query \<Rightarrow> string" where
  "products_key w q =
     ''products-'' @ tmpl (query_search q) @ ''-'' @ tmpl (query_sort q) @ ''-'' @ tmpl (query_category q)
       @ ''-'' @ tmpl (query_price q) @ ''-'' @ String_num w (number_or w (query_page q) 1)"

definition build_baseQuery :: "world \<Rightarrow> products_query \<Rightarrow> baseQuery" where
  "build_baseQuery w q =
     (let b0 = \<lparr>q_name = None, q_price = None, q_category = None\<rparr>;
          b1 = (if truthy (js_str (query_search q)) then b0\<lparr>q_name := query_search q\<rparr> else b0);
          b2 = (if truthy (js_str (query_price q)) then b1\<lparr>q_price := Some (Number_js w (query_price q))\<rparr>
                else b1);
          b3 = (if truthy (js_str (query_category q)) then b2\<lparr>q_category := query_category q\<rparr> else b2)
      in b3)"

text \<open>\<^verbatim>\<open>sort && { price: sort === "asc" ? 1 : -1 }\<close>.\<close>

definition sort_arg :: "string option \<Rightarrow> sort_spec" where
  "sort_arg srt =
     (if truthy (js_str srt) then (if srt = Some ''asc'' then PriceAsc else PriceDesc)
      else NoSort)"

text \<open>
  The \<^verbatim>\<open>else\<close> branch of the listing up to its two results: the requested page of the
  matching products and the number of pages.
\<close>

definition products_page :: "world \<Rightarrow> products_query \<Rightarrow> state \<Rightarrow> payload \<times> payload" where
  "products_page w q st =
     (let pg = number_or w (query_page q) 1;
          limit = number_or w (PRODUCT_PER_PAGE w) 8;
          skip = (pg - 1) * limit;
          bq = build_baseQuery w q;
          prods = PList (Model_find w (Product_find_page bq (sort_arg (query_sort q)) limit skip)
                           (store_of st));
          filteredOnlyProduct = Model_find w (Product_find bq) (store_of st);
          totalPage = PVal (JNum (of_int \<lceil>of_nat (length filteredOnlyProduct) / limit\<rceil>))
      in (prods, totalPage))"

definition getAllProducts :: "world \<Rightarrow> products_query \<Rightarrow> state \<Rightarrow> response \<times> state" where
  "getAllProducts w q st =
     (let key = products_key w q in
      case hit (redis_get key st) of
        Some s \<Rightarrow>
          (case JSON_parse w s of
             None \<Rightarrow> (Threw, st)
           | Some data \<Rightarrow>
               (case (get_prop data ''totalPage'', get_prop data ''products'') of
                  (Some totalPage, Some prods) \<Rightarrow>
                    (Json 200 (PObj [(''success'', PVal (JBool True)),
                                     (''products'', PVal prods),
                                     (''totalPage'', PVal totalPage)]), st)
                | _ \<Rightarrow> (Threw, st)))
      | None \<Rightarrow>
          (let (prods, totalPage) = products_page w q st
           in (Json 200 (PObj [(''success'', PVal (JBool True)),
                               (''products'', prods),
                               (''totalPage'', totalPage)]),
               redis_setex key 30
                 (JSON_stringify w (PObj [(''products'', prods), (''totalPage'', totalPage)])) st)))"

section \<open>Product controller: updates and reviews\<close>

text \<open>
  The body of \<^verbatim>\<open>PUT /product/:id\<close>, as the handler reads it: five values of no declared
  type, \<^verbatim>\<open>undefined\<close> when absent. A JSON body delivers numbers and strings; the multipart
  form that carries the photos delivers every field as text. \<^verbatim>\<open>req.files\<close> is the list
  of uploaded files, if any.
\<close>

record UpdateProductBody =
  upd_name :: jsval
  upd_price :: jsval
  upd_stock :: jsval
  upd_category :: jsval
  upd_description :: jsval

definition updateProduct ::
  "world \<Rightarrow> string \<Rightarrow> UpdateProductBody \<Rightarrow> string list option \<Rightarrow> state \<Rightarrow> response \<times> state" where
  "updateProduct w ident b files st =
     (case findById p_id ident (products st) of
        None \<Rightarrow> (NextErr ''Product Not Found'' 404, st)
      | Some (i, p0) \<Rightarrow>
          (let new_photos = (case files of None \<Rightarrow> False | Some fs \<Rightarrow> 0 < length fs);
               st1 = (if new_photos
                      then st\<lparr>deleted_images := deleted_images st @ map public_id (photos p0)\<rparr>
                      else st);
               p1 = (if new_photos then p0\<lparr>photos := [] @ uploadToCloudinary w (the files)\<rparr>
                     else p0);
               p2 = (if truthy (upd_name b) then p1\<lparr>name := upd_name b\<rparr> else p1);
               p3 = (if truthy (upd_price b) then p2\<lparr>price := upd_price b\<rparr> else p2);
               p4 = (if truthy (upd_stock b) then p3\<lparr>stock := upd_stock b\<rparr> else p3);
               p5 = (if truthy (upd_category b) then p4\<lparr>category := upd_category b\<rparr> else p4);
               p6 = (if truthy (upd_description b) then p5\<lparr>description := upd_description b\<rparr>
                     else p5);
               st2 = st1\<lparr>products := (products st1)[i := p6]\<rparr>;
               st3 = st2\<lparr>cache := invalidateCache w
                        \<lparr>inv_product = True, inv_order = False, inv_admin = True,
                         inv_review = False, inv_userId = None, inv_orderId = None,
                         inv_productId = [p_id p6]\<rparr> (cache st2)\<rparr>
           in (Json 200 (ok_message ''Product Updated Successfully''), st3)))"

text \<open>
  Modelled from the spec: \<^verbatim>\<open>findAverageRatings\<close> of \<^verbatim>\<open>utils/features\<close>, which is not among
  the sources. The spec: given a product id, scan all reviews referencing it, compute the
  arithmetic mean of \<^verbatim>\<open>rating\<close> (0 if no reviews) and the count. The result is
  \<open>(ratings, numOfReviews)\<close>.
\<close>

definition findAverageRatings :: "string \<Rightarrow> review list \<Rightarrow> rat \<times> nat" where
  "findAverageRatings pid rs =
     (let mine = filter (\<lambda>r. r_product r = pid) rs;
          n = length mine
      in (if n = 0 then 0 else sum_list (map rating mine) / of_nat n, n))"

text \<open>
  The body of a review. The schema of \<^verbatim>\<open>models/review\<close> (not among the sources) decides
  which values are stored; the model takes a comment and a numeric rating.
\<close>

record ReviewBody =
  body_comment :: string
  body_rating :: rat

text \<open>\<^verbatim>\<open>User.findById(req.query.id)\<close>: an absent id finds nobody.\<close>

definition find_user :: "string option \<Rightarrow> user list \<Rightarrow> (nat \<times> user) option" where
  "find_user qid us = (case qid of None \<Rightarrow> None | Some i \<Rightarrow> findById u_id i us)"

definition newReview ::
  "world \<Rightarrow> string option \<Rightarrow> string \<Rightarrow> ReviewBody \<Rightarrow> state \<Rightarrow> response \<times> state" where
  "newReview w qid pid b st =
     (case find_user qid (users st) of
        None \<Rightarrow> (NextErr ''Not Logged In'' 404, st)
      | Some (ui, usr) \<Rightarrow>
          (case findById p_id pid (products st) of
             None \<Rightarrow> (NextErr ''Product Not Found'' 404, st)
           | Some (i, p0) \<Rightarrow>
               (let alreadyReviewed =
                      find_first (\<lambda>r. r_user r = u_id usr \<and> r_product r = p_id p0) (reviews st);
                    st1 = (case alreadyReviewed of
                             Some (j, rev0) \<Rightarrow>
                               st\<lparr>reviews := (reviews st)
                                    [j := rev0\<lparr>comment := body_comment b, rating := body_rating b\<rparr>]\<rparr>
                           | None \<Rightarrow>
                               st\<lparr>reviews := reviews st @
                                    [\<lparr>r_id = new_ObjectId w (store_of st),
                                      comment = body_comment b, rating = body_rating b,
                                      r_user = u_id usr, r_product = p_id p0\<rparr>]\<rparr>);
                    avg = findAverageRatings (p_id p0) (reviews st1);
                    p1 = p0\<lparr>ratings := fst avg, numOfReviews := snd avg\<rparr>;
                    st2 = st1\<lparr>products := (products st1)[i := p1]\<rparr>;
                    st3 = st2\<lparr>cache := invalidateCache w
                             \<lparr>inv_product = True, inv_order = False, inv_admin = True,
                              inv_review = True, inv_userId = None, inv_orderId = None,
                              inv_productId = [p_id p1]\<rparr> (cache st2)\<rparr>
                in (Json (if alreadyReviewed \<noteq> None then 200 else 201)
                      (ok_message (if alreadyReviewed \<noteq> None then ''Review Updated''
                                   else ''Review Added'')), st3))))"

definition deleteReview :: "world \<Rightarrow> string \<Rightarrow> string \<Rightarrow> state \<Rightarrow> response \<times> state" where
  "deleteReview w pid reviewId st =
     (case findById p_id pid (products st) of
        None \<Rightarrow> (NextErr ''Product Not Found'' 404, st)
      | Some (i, p0) \<Rightarrow>
          (case findById r_id reviewId (reviews st) of
             None \<Rightarrow> (NextErr ''Review Not Found'' 404, st)
           | Some (j, rev0) \<Rightarrow>
               (let st1 = st\<lparr>reviews := take j (reviews st) @ drop (Suc j) (reviews st)\<rparr>;
                    avg = findAverageRatings (p_id p0) (reviews st1);
                    p1 = p0\<lparr>ratings := fst avg, numOfReviews := snd avg\<rparr>;
                    st2 = st1\<lparr>products := (products st1)[i := p1]\<rparr>;
                    st3 = st2\<lparr>cache := invalidateCache w
                             \<lparr>inv_product = True, inv_order = False, inv_admin = True,
                              inv_review = True, inv_userId = None, inv_orderId = None,
                              inv_productId = [p_id p1]\<rparr> (cache st2)\<rparr>
                in (Json 200 (ok_message ''Review Deleted''), st3))))"

section \<open>The admin-only middleware\<close>

definition adminOnly :: "string option \<Rightarrow> state \<Rightarrow> response" where
  "adminOnly qid st =
     (if \<not> truthy (js_str qid) then NextErr ''Please log in first'' 401
      else (case find_user qid (users st) of
              None \<Rightarrow> NextErr ''Invalid ID provided'' 401
            | Some (i, usr) \<Rightarrow>
                (if role usr \<noteq> ''admin'' then NextErr ''You do not have admin privileges'' 403
                 else Next)))"

section \<open>A concrete world and concrete states\<close>

text \<open>
  Modelled from the spec: \<^verbatim>\<open>invalidateCache\<close> of \<^verbatim>\<open>utils/features\<close>, which is not among the
  sources. The spec: with \<^verbatim>\<open>product\<close> delete \<^verbatim>\<open>latest-products\<close>, \<^verbatim>\<open>all-products\<close>,
  \<^verbatim>\<open>categories\<close> and the key of each product id given; with \<^verbatim>\<open>order\<close> delete
  \<^verbatim>\<open>all-orders\<close>, \<^verbatim>\<open>my-orders-{userId}\<close> and \<^verbatim>\<open>order-{orderId}\<close> where given; with
  \<^verbatim>\<open>review\<close> delete \<^verbatim>\<open>reviews-{productId}\<close>. The admin dashboard keys lie outside these
  controllers and are left out.
\<close>

definition invalidateCache_spec :: "invalidate_props \<Rightarrow> redis \<Rightarrow> redis" where
  "invalidateCache_spec t c =
     (let product_keys =
            (if inv_product t
             then [''latest-products'', ''all-products'', ''categories'']
                  @ map product_key (inv_productId t)
             else []);
          order_keys =
            (if inv_order t
             then [''all-orders'']
                  @ (case inv_userId t of None \<Rightarrow> [] | Some u \<Rightarrow> [my_orders_key (Some u)])
                  @ (case inv_orderId t of None \<Rightarrow> [] | Some i \<Rightarrow> [order_key i])
             else []);
          review_keys =
            (if inv_review t then map reviews_key (inv_productId t) else [])
      in fold (\<lambda>k m. m(k := None)) (product_keys @ order_keys @ review_keys) c)"

text \<open>
  The remaining collaborators are given one concrete reading each, used where a statement
  is evaluated on concrete data. Decimal numerals are printed and read for natural numbers,
  where they agree with \<^verbatim>\<open>String\<close> and \<^verbatim>\<open>Number\<close>.
\<close>

definition digit_char :: "nat \<Rightarrow> char" where
  "digit_char d = ''0123456789'' ! d"

fun show_nat :: "nat \<Rightarrow> string" where
  "show_nat n =
     (if n < 10 then [digit_char n] else show_nat (n div 10) @ [digit_char (n mod 10)])"

declare show_nat.simps [simp del]

definition digit_val :: "char \<Rightarrow> nat option" where
  "digit_val c =
     (let k = (of_char c :: nat) in if 48 \<le> k \<and> k \<le> 57 then Some (k - 48) else None)"

fun read_nat :: "nat \<Rightarrow> string \<Rightarrow> nat option" where
  "read_nat acc [] = Some acc"
| "read_nat acc (c # cs) =
     (case digit_val c of None \<Rightarrow> None | Some d \<Rightarrow> read_nat (10 * acc + d) cs)"

definition sample_Number :: "string option \<Rightarrow> rat option" where
  "sample_Number x = (case x of None \<Rightarrow> None | Some s \<Rightarrow> map_option of_nat (read_nat 0 s))"

definition sample_String :: "rat \<Rightarrow> string" where
  "sample_String n = (if n = of_nat (nat \<lfloor>n\<rfloor>) then show_nat (nat \<lfloor>n\<rfloor>) else ''NaN'')"

definition sample_parse :: "string \<Rightarrow> jsval option" where
  "sample_parse s =
     (if s = ''null'' then Some JNull
      else if s = ''true'' then Some (JBool True)
      else if s = ''false'' then Some (JBool False)
      else if s = ''[]'' then Some (JArr [])
      else if s = ''{}'' then Some (JObj [])
      else None)"

fun sample_stringify :: "payload \<Rightarrow> string" where
  "sample_stringify (PVal v) = (if v = JArr [] then ''[]'' else if v = JObj [] then ''{}'' else ''null'')"
| "sample_stringify (PProduct p) = ''{\"_id\":\"'' @ p_id p @ ''\"}''"
| "sample_stringify (POrder ord) = ''{\"_id\":\"'' @ o_id ord @ ''\"}''"
| "sample_stringify (PReview r) = ''{\"_id\":\"'' @ r_id r @ ''\"}''"
| "sample_stringify (PList xs) = ''['' @ concat (map sample_stringify xs) @ '']''"
| "sample_stringify (PObj kvs) = ''{'' @ concat (map (\<lambda>(k, v). k @ '':'' @ sample_stringify v) kvs) @ ''}''"

fun sample_find :: "query \<Rightarrow> store \<Rightarrow> payload list" where
  "sample_find Product_find_latest (us, ps, os, rs) = map PProduct (take 5 (rev ps))"
| "sample_find Product_distinct_category (us, ps, os, rs) =
     map PVal (remdups (map category ps))"
| "sample_find Product_find_all (us, ps, os, rs) = map PProduct ps"
| "sample_find (Product_find_page bq srt limit skip) (us, ps, os, rs) =
     map PProduct (take (nat \<lfloor>limit\<rfloor>) (drop (nat \<lfloor>skip\<rfloor>) ps))"
| "sample_find (Product_find bq) (us, ps, os, rs) = map PProduct ps"
| "sample_find (Review_find_product i) (us, ps, os, rs) =
     map PReview (filter (\<lambda>r. r_product r = i) rs)"
| "sample_find (Order_find_user u) (us, ps, os, rs) =
     map POrder (filter (\<lambda>ord. o_user ord = u) os)"
| "sample_find Order_find_all (us, ps, os, rs) = map POrder os"

fun sample_reduceStock :: "order_item list \<Rightarrow> product list \<Rightarrow> product list option" where
  "sample_reduceStock [] ps = Some ps"
| "sample_reduceStock (it # items) ps =
     (case findById p_id (productId it) ps of
        None \<Rightarrow> None
      | Some (i, p) \<Rightarrow>
          (case stock p of
             JNum n \<Rightarrow> sample_reduceStock items (ps[i := p\<lparr>stock := JNum (n - quantity it)\<rparr>])
           | _ \<Rightarrow> None))"

definition sample_world :: world where
  "sample_world =
     \<lparr>redisTTL = 14400,
      JSON_parse = sample_parse,
      JSON_stringify = sample_stringify,
      Model_find = sample_find,
      populate = (\<lambda>path sel s doc. doc),
      invalidateCache = invalidateCache_spec,
      reduceStock = sample_reduceStock,
      uploadToCloudinary = map (\<lambda>f. \<lparr>public_id = f, url = ''https://img.example/'' @ f\<rparr>),
      new_ObjectId = (\<lambda>(us, ps, os, rs). show_nat (length us + length ps + length os + length rs)),
      Number_js = sample_Number,
      String_num = sample_String,
      PRODUCT_PER_PAGE = None\<rparr>"

definition empty_state :: state where
  "empty_state =
     \<lparr>users = [], products = [], orders = [], reviews = [], cache = Map.empty,
      deleted_images = []\<rparr>"

definition sample_user :: user where
  "sample_user = \<lparr>u_id = ''u1'', u_name = ''Ada'', role = ''user''\<rparr>"

definition sample_admin :: user where
  "sample_admin = \<lparr>u_id = ''a1'', u_name = ''Grace'', role = ''admin''\<rparr>"

definition sample_product :: product where
  "sample_product =
     \<lparr>p_id = ''p1'', name = JStr ''Lamp'', price = JNum 20, stock = JNum 5,
      category = JStr ''home'', description = JStr ''A desk lamp'',
      photos = [\<lparr>public_id = ''img1'', url = ''https://img.example/img1''\<rparr>],
      ratings = 0, numOfReviews = 0\<rparr>"

definition sample_product2 :: product where
  "sample_product2 =
     \<lparr>p_id = ''p2'', name = JStr ''Chair'', price = JNum 45, stock = JNum 3,
      category = JStr ''home'', description = JStr ''A chair'', photos = [], ratings = 0,
      numOfReviews = 0\<rparr>"

definition sample_order :: order where
  "sample_order =
     \<lparr>o_id = ''o1'', shippingInfo = JObj [(''city'', JStr ''Nairobi'')],
      orderItems = [\<lparr>productId = ''p1'', quantity = 2\<rparr>], o_user = ''u1'',
      subtotal = 40, tax = 4, shippingCharges = Some 0, discount = None, total = 44,
      status = ''Processing''\<rparr>"

definition shop_state :: state where
  "shop_state =
     \<lparr>users = [sample_user, sample_admin], products = [sample_product, sample_product2],
      orders = [sample_order], reviews = [], cache = Map.empty, deleted_images = []\<rparr>"

definition sample_body :: NewOrderRequestBody where
  "sample_body =
     \<lparr>req_shippingInfo = Some (JObj [(''city'', JStr ''Nairobi'')]),
      req_orderItems = Some [\<lparr>productId = ''p1'', quantity = 2\<rparr>],
      req_user = Some ''u1'', req_subtotal = Some 40, req_tax = Some 4,
      req_shippingCharges = None, req_discount = None, req_total = Some 44\<rparr>"

definition sample_update :: UpdateProductBody where
  "sample_update =
     \<lparr>upd_name = JStr ''Desk lamp'', upd_price = JNum 0, upd_stock = JNum 0,
      upd_category = JStr [], upd_description = JStr ''Brighter''\<rparr>"

text \<open>The same update sent as a form: the price and the stock arrive as the text \<^verbatim>\<open>0\<close>.\<close>

definition form_update :: UpdateProductBody where
  "form_update =
     \<lparr>upd_name = JUndefined, upd_price = JStr ''0'', upd_stock = JStr ''0'',
      upd_category = JUndefined, upd_description = JUndefined\<rparr>"

definition sample_reviews :: "review list" where
  "sample_reviews =
     [\<lparr>r_id = ''r1'', comment = ''Fine'', rating = 3, r_user = ''u1'', r_product = ''p1''\<rparr>,
      \<lparr>r_id = ''r2'', comment = ''Sturdy'', rating = 1, r_user = ''u1'', r_product = ''p2''\<rparr>,
      \<lparr>r_id = ''r3'', comment = ''Bright'', rating = 5, r_user = ''a1'', r_product = ''p1''\<rparr>]"

text \<open>The uniqueness invariant of the reviews: no two reviews agree on user and product.\<close>

definition one_review_per_pair :: "review list \<Rightarrow> bool" where
  "one_review_per_pair rs \<longleftrightarrow> distinct (map (\<lambda>r. (r_user r, r_product r)) rs)"

definition sample_review_body :: ReviewBody where
  "sample_review_body = \<lparr>body_comment = ''Good'', body_rating = 4\<rparr>"

definition sample_review_body2 :: ReviewBody where
  "sample_review_body2 = \<lparr>body_comment = ''Broke after a week'', body_rating = 2\<rparr>"

definition reviewed_state :: state where
  "reviewed_state = shop_state\<lparr>reviews := sample_reviews\<rparr>"

text \<open>
  Parameters of the listing that keep its key readable: none of the four texts contains a
  hyphen, and none is the literal text that an absent parameter prints as.
\<close>

definition plain_text :: "string option \<Rightarrow> bool" where
  "plain_text x \<longleftrightarrow> CHR ''-'' \<notin> set (tmpl x) \<and> x \<noteq> Some ''undefined''"

definition plain_params :: "products_query \<Rightarrow> bool" where
  "plain_params q \<longleftrightarrow>
     plain_text (query_search q) \<and> plain_text (query_sort q)
     \<and> plain_text (query_category q) \<and> plain_text (query_price q)"

definition no_params :: products_query where
  "no_params =
     \<lparr>query_search = None, query_sort = None, query_category = None, query_price = None,
      query_page = None\<rparr>"

definition lamp_query :: products_query where
  "lamp_query = no_params\<lparr>query_search := Some ''lamp'', query_page := Some ''2''\<rparr>"

text \<open>
  The read-through contract of the spec for one call: \<open>result\<close> is what the handler
  returned, \<open>fallback\<close> the value of its fallback computation. A cached value counts as
  present when the handler's own test accepts the reply, that is when it is not empty.
\<close>

definition read_through_contract ::
  "world \<Rightarrow> response \<times> state \<Rightarrow> string \<Rightarrow> nat \<Rightarrow> string \<Rightarrow> payload \<Rightarrow> state \<Rightarrow> bool" where
  "read_through_contract w result key ttl field fallback st \<longleftrightarrow>
     (case hit (redis_get key st) of
        Some s \<Rightarrow>
          result = ((case JSON_parse w s of
                       None \<Rightarrow> Threw
                     | Some v \<Rightarrow> Json 200 (ok_with field (PVal v))), st)
      | None \<Rightarrow>
          result = (Json 200 (ok_with field fallback),
                    redis_setex key ttl (JSON_stringify w fallback) st))"

text \<open>The status code of a response that forwards an error.\<close>

fun error_status :: "response \<Rightarrow> nat option" where
  "error_status (NextErr msg code) = Some code"
| "error_status r = None"

definition cached_state :: state where
  "cached_state =
     shop_state\<lparr>cache := [product_key ''p1'' \<mapsto> (''{}'', 14400),
                          product_key ''gone'' \<mapsto> (''null'', 14400),
                          order_key ''o1'' \<mapsto> (''{}'', 14400),
                          my_orders_key (Some ''u1'') \<mapsto> (''[]'', 14400),
                          products_key sample_world no_params \<mapsto> (''{}'', 30),
                          ''all-products'' \<mapsto> ([], 14400),
                          product_key ''zz'' \<mapsto> ([], 14400)]\<rparr>"

section \<open>Properties of the order status transition\<close>

lemma next_status_iter: "(next_status ^^ (n + 2)) ''Processing'' = ''Delivered''"
  by (induction n) (simp_all add: next_status_def numeral_2_eq_2)

lemma processOrder_found:
  assumes "ident \<noteq> []" and "findById o_id ident (orders st) = Some (i, ord)"
  shows "orders (snd (processOrder w ident st)) =
           (orders st)[i := ord\<lparr>status := next_status (status ord)\<rparr>]"
    and "fst (processOrder w ident st) = Json 200 (ok_message ''Order processed successfully'')"
  using assms by (simp_all add: processOrder_def Let_def)

text \<open>
  Claim C2. The transition of \<^verbatim>\<open>processOrder\<close> maps \<^verbatim>\<open>Processing\<close> to \<^verbatim>\<open>Shipped\<close>,
  \<^verbatim>\<open>Shipped\<close> to \<^verbatim>\<open>Delivered\<close>, and every other status to \<^verbatim>\<open>Delivered\<close>. Starting
  from \<^verbatim>\<open>Processing\<close>, the status is not yet \<^verbatim>\<open>Delivered\<close> after 0 or 1 steps and is
  \<^verbatim>\<open>Delivered\<close> after 2 steps and after every larger number of steps. No step goes
  backwards: the rank of a status never decreases. The handler writes exactly this
  transition into the order it found.
\<close>

theorem order_status_transition:
  "next_status ''Processing'' = ''Shipped''
   \<and> next_status ''Shipped'' = ''Delivered''
   \<and> (s \<noteq> ''Processing'' \<and> s \<noteq> ''Shipped'' \<longrightarrow> next_status s = ''Delivered'')
   \<and> (next_status ^^ 0) ''Processing'' = ''Processing''
   \<and> (next_status ^^ 1) ''Processing'' = ''Shipped''
   \<and> (\<forall>n\<ge>2. (next_status ^^ n) ''Processing'' = ''Delivered'')
   \<and> status_rank s \<le> status_rank (next_status s)
   \<and> (ident \<noteq> [] \<and> findById o_id ident (orders st) = Some (i, ord) \<longrightarrow>
        orders (snd (processOrder w ident st)) =
          (orders st)[i := ord\<lparr>status := next_status (status ord)\<rparr>])"
proof -
  have iter: "\<forall>n\<ge>2. (next_status ^^ n) ''Processing'' = ''Delivered''"
  proof (intro allI impI)
    fix n :: nat
    assume "2 \<le> n"
    then obtain k where "n = k + 2"
      by (metis le_add_diff_inverse2)
    then show "(next_status ^^ n) ''Processing'' = ''Delivered''"
      using next_status_iter by simp
  qed
  have rank: "status_rank s \<le> status_rank (next_status s)"
    by (simp add: status_rank_def next_status_def)
  show ?thesis
    using iter rank processOrder_found(1) by (simp add: next_status_def)
qed

theorem order_status_transition_witness:
  "''Cancelled'' \<noteq> ''Processing'' \<and> ''Cancelled'' \<noteq> ''Shipped''
   \<and> next_status ''Cancelled'' = ''Delivered''
   \<and> (2::nat) \<le> 5 \<and> (next_status ^^ 5) ''Processing'' = ''Delivered''
   \<and> ''o1'' \<noteq> [] \<and> findById o_id ''o1'' (orders shop_state) = Some (0, sample_order)
   \<and> orders (snd (processOrder sample_world ''o1'' shop_state))
       = [sample_order\<lparr>status := ''Shipped''\<rparr>]"
proof -
  note t = order_status_transition
    [where s = "''Cancelled''" and ident = "''o1''" and st = shop_state and i = 0
       and ord = sample_order and w = sample_world]
  have found: "findById o_id ''o1'' (orders shop_state) = Some (0, sample_order)"
    by (simp add: findById_def shop_state_def sample_order_def)
  have five: "(next_status ^^ 5) ''Processing'' = ''Delivered''"
    using t by (elim conjE) (drule spec [of _ 5], simp)
  have upd: "orders (snd (processOrder sample_world ''o1'' shop_state))
       = (orders shop_state)[0 := sample_order\<lparr>status := next_status (status sample_order)\<rparr>]"
    using t found by simp
  have "next_status ''Cancelled'' = ''Delivered''"
    using t by simp
  then show ?thesis
    using found five upd by (simp add: shop_state_def sample_order_def next_status_def)
qed

section \<open>Properties of the admin-only middleware\<close>

text \<open>
  Claim C6. The admin-only middleware answers 401 when the request carries no user id
  (the id is absent or empty), 403 when the id resolves to a user whose role is not
  \<^verbatim>\<open>admin\<close>, and calls the next handler when it resolves to a user whose role is \<^verbatim>\<open>admin\<close>.
\<close>

theorem adminOnly_responses:
  "(\<not> truthy (js_str qid) \<longrightarrow> adminOnly qid st = NextErr ''Please log in first'' 401)
   \<and> (truthy (js_str qid) \<and> find_user qid (users st) = Some (i, usr) \<and> role usr \<noteq> ''admin''
        \<longrightarrow> adminOnly qid st = NextErr ''You do not have admin privileges'' 403)
   \<and> (truthy (js_str qid) \<and> find_user qid (users st) = Some (i, usr) \<and> role usr = ''admin''
        \<longrightarrow> adminOnly qid st = Next)"
  by (simp add: adminOnly_def)

theorem adminOnly_responses_witness:
  "\<not> truthy (js_str None) \<and> adminOnly None shop_state = NextErr ''Please log in first'' 401
   \<and> truthy (js_str (Some ''u1''))
   \<and> find_user (Some ''u1'') (users shop_state) = Some (0, sample_user)
   \<and> role sample_user \<noteq> ''admin''
   \<and> adminOnly (Some ''u1'') shop_state = NextErr ''You do not have admin privileges'' 403
   \<and> truthy (js_str (Some ''a1''))
   \<and> find_user (Some ''a1'') (users shop_state) = Some (1, sample_admin)
   \<and> role sample_admin = ''admin''
   \<and> adminOnly (Some ''a1'') shop_state = Next"
proof -
  have u: "find_user (Some ''u1'') (users shop_state) = Some (0, sample_user)"
    by (simp add: find_user_def findById_def shop_state_def sample_user_def)
  have a: "find_user (Some ''a1'') (users shop_state) = Some (1, sample_admin)"
    by (simp add: find_user_def findById_def shop_state_def sample_user_def sample_admin_def)
  have ru: "role sample_user \<noteq> ''admin''" and ra: "role sample_admin = ''admin''"
    by (simp_all add: sample_user_def sample_admin_def)
  show ?thesis
    using adminOnly_responses [where qid = None and st = shop_state]
      adminOnly_responses [where qid = "Some ''u1''" and st = shop_state and i = 0
        and usr = sample_user]
      adminOnly_responses [where qid = "Some ''a1''" and st = shop_state and i = 1
        and usr = sample_admin]
      u a ru ra
    by simp
qed

section \<open>Status codes of rejected requests\<close>

text \<open>
  Claim C7. A request rejected because the user is not logged in should be answered with
  401. The review handler answers 404 when the user id is absent or resolves to nobody,
  under the message \<^verbatim>\<open>Not Logged In\<close>; the admin-only middleware answers 401 for the same
  failed lookup.
\<close>

theorem newReview_not_logged_in_is_404:
  "newReview w None pid b st = (NextErr ''Not Logged In'' 404, st)
   \<and> newReview w (Some ''nobody'') pid b shop_state = (NextErr ''Not Logged In'' 404, shop_state)
   \<and> adminOnly None st = NextErr ''Please log in first'' 401
   \<and> adminOnly (Some ''nobody'') shop_state = NextErr ''Invalid ID provided'' 401"
  by (simp add: newReview_def adminOnly_def find_user_def findById_def shop_state_def
      sample_user_def sample_admin_def)

section \<open>Validation of a new order\<close>

text \<open>
  Claim C8. A new order is rejected with 400 when the shipping information, the items, the
  user, the subtotal, the tax or the total is absent or falsy, so also when the subtotal, the
  tax or the total is zero while every field is present. The shipping charges and the
  discount are never tested: once the six fields pass, the request is not rejected whatever
  they are, absent included.
\<close>

theorem newOrder_required_fields:
  "(\<not> truthy (js_val (req_shippingInfo b)) \<or> req_orderItems b = None
      \<or> \<not> truthy (js_str (req_user b)) \<or> \<not> truthy (js_num (req_subtotal b))
      \<or> \<not> truthy (js_num (req_tax b)) \<or> \<not> truthy (js_num (req_total b))
     \<longrightarrow> newOrder w b st = (NextErr ''Please enter all required fields'' 400, st))
   \<and> (req_shippingInfo b = None \<or> req_orderItems b = None \<or> req_user b = None
        \<or> req_subtotal b = None \<or> req_tax b = None \<or> req_total b = None
     \<longrightarrow> newOrder w b st = (NextErr ''Please enter all required fields'' 400, st))
   \<and> (req_subtotal b = Some 0 \<or> req_tax b = Some 0 \<or> req_total b = Some 0
     \<longrightarrow> newOrder w b st = (NextErr ''Please enter all required fields'' 400, st))
   \<and> (truthy (js_val (req_shippingInfo b)) \<and> req_orderItems b \<noteq> None
        \<and> truthy (js_str (req_user b)) \<and> truthy (js_num (req_subtotal b))
        \<and> truthy (js_num (req_tax b)) \<and> truthy (js_num (req_total b))
     \<longrightarrow> (\<forall>c d. fst (newOrder w (b\<lparr>req_shippingCharges := c, req_discount := d\<rparr>) st)
                 \<in> {Json 201 (ok_message ''Order placed successfully''), Threw}))"
proof -
  have falsy: "missing_order_fields b \<Longrightarrow>
      newOrder w b st = (NextErr ''Please enter all required fields'' 400, st)"
    by (simp add: newOrder_def)
  have absent: "req_shippingInfo b = None \<or> req_orderItems b = None \<or> req_user b = None
        \<or> req_subtotal b = None \<or> req_tax b = None \<or> req_total b = None
      \<Longrightarrow> missing_order_fields b"
    by (auto simp: missing_order_fields_def)
  have zero: "req_subtotal b = Some 0 \<or> req_tax b = Some 0 \<or> req_total b = Some 0
      \<Longrightarrow> missing_order_fields b"
    by (auto simp: missing_order_fields_def)
  have pass: "\<not> missing_order_fields b \<Longrightarrow>
      fst (newOrder w (b\<lparr>req_shippingCharges := c, req_discount := d\<rparr>) st)
        \<in> {Json 201 (ok_message ''Order placed successfully''), Threw}" for c d
    by (simp add: newOrder_def missing_order_fields_def Let_def split: option.split)
  show ?thesis
  proof (intro conjI impI allI)
    assume "\<not> truthy (js_val (req_shippingInfo b)) \<or> req_orderItems b = None
      \<or> \<not> truthy (js_str (req_user b)) \<or> \<not> truthy (js_num (req_subtotal b))
      \<or> \<not> truthy (js_num (req_tax b)) \<or> \<not> truthy (js_num (req_total b))"
    then have "missing_order_fields b"
      by (simp add: missing_order_fields_def)
    then show "newOrder w b st = (NextErr ''Please enter all required fields'' 400, st)"
      by (rule falsy)
  next
    assume "req_shippingInfo b = None \<or> req_orderItems b = None \<or> req_user b = None
        \<or> req_subtotal b = None \<or> req_tax b = None \<or> req_total b = None"
    then show "newOrder w b st = (NextErr ''Please enter all required fields'' 400, st)"
      by (intro falsy absent)
  next
    assume "req_subtotal b = Some 0 \<or> req_tax b = Some 0 \<or> req_total b = Some 0"
    then show "newOrder w b st = (NextErr ''Please enter all required fields'' 400, st)"
      by (intro falsy zero)
  next
    fix c d
    assume "truthy (js_val (req_shippingInfo b)) \<and> req_orderItems b \<noteq> None
        \<and> truthy (js_str (req_user b)) \<and> truthy (js_num (req_subtotal b))
        \<and> truthy (js_num (req_tax b)) \<and> truthy (js_num (req_total b))"
    then have "\<not> missing_order_fields b"
      by (simp add: missing_order_fields_def)
    then show "fst (newOrder w (b\<lparr>req_shippingCharges := c, req_discount := d\<rparr>) st)
        \<in> {Json 201 (ok_message ''Order placed successfully''), Threw}"
      by (rule pass)
  qed
qed

theorem newOrder_required_fields_witness:
  "req_subtotal (sample_body\<lparr>req_subtotal := Some 0\<rparr>) = Some 0
   \<and> newOrder sample_world (sample_body\<lparr>req_subtotal := Some 0\<rparr>) shop_state
       = (NextErr ''Please enter all required fields'' 400, shop_state)
   \<and> req_total (sample_body\<lparr>req_total := None\<rparr>) = None
   \<and> newOrder sample_world (sample_body\<lparr>req_total := None\<rparr>) shop_state
       = (NextErr ''Please enter all required fields'' 400, shop_state)
   \<and> \<not> truthy (js_str (req_user (sample_body\<lparr>req_user := Some []\<rparr>)))
   \<and> newOrder sample_world (sample_body\<lparr>req_user := Some []\<rparr>) shop_state
       = (NextErr ''Please enter all required fields'' 400, shop_state)
   \<and> truthy (js_val (req_shippingInfo sample_body)) \<and> req_orderItems sample_body \<noteq> None
   \<and> truthy (js_str (req_user sample_body)) \<and> truthy (js_num (req_subtotal sample_body))
   \<and> truthy (js_num (req_tax sample_body)) \<and> truthy (js_num (req_total sample_body))
   \<and> fst (newOrder sample_world
            (sample_body\<lparr>req_shippingCharges := None, req_discount := None\<rparr>) shop_state)
       \<in> {Json 201 (ok_message ''Order placed successfully''), Threw}
   \<and> fst (newOrder sample_world sample_body shop_state)
       = Json 201 (ok_message ''Order placed successfully'')"
proof -
  have placed: "fst (newOrder sample_world sample_body shop_state)
      = Json 201 (ok_message ''Order placed successfully'')"
    by (simp add: newOrder_def missing_order_fields_def sample_body_def sample_world_def
        Order_create_def shop_state_def Let_def findById_def sample_product_def
        show_nat.simps)
  have ok: "truthy (js_val (req_shippingInfo sample_body)) \<and> req_orderItems sample_body \<noteq> None
     \<and> truthy (js_str (req_user sample_body)) \<and> truthy (js_num (req_subtotal sample_body))
     \<and> truthy (js_num (req_tax sample_body)) \<and> truthy (js_num (req_total sample_body))"
    by (simp add: sample_body_def)
  show ?thesis
    using newOrder_required_fields
        [where b = "sample_body\<lparr>req_subtotal := Some 0\<rparr>" and w = sample_world
           and st = shop_state]
      newOrder_required_fields
        [where b = "sample_body\<lparr>req_total := None\<rparr>" and w = sample_world
           and st = shop_state]
      newOrder_required_fields
        [where b = "sample_body\<lparr>req_user := Some []\<rparr>" and w = sample_world
           and st = shop_state]
      newOrder_required_fields [where b = sample_body and w = sample_world and st = shop_state]
      ok placed
    by simp
qed

section \<open>Looking documents up\<close>

lemma find_first_Some:
  "find_first P xs = Some (i, x) \<Longrightarrow> i < length xs \<and> xs ! i = x \<and> P x"
proof (induction xs arbitrary: i)
  case Nil
  then show ?case by simp
next
  case (Cons y ys)
  show ?case
  proof (cases "P y")
    case True
    with Cons.prems show ?thesis by simp
  next
    case False
    with Cons.prems obtain j where j: "find_first P ys = Some (j, x)" and i: "i = Suc j"
      by (auto split: option.splits)
    from Cons.IH [OF j] i show ?thesis by simp
  qed
qed

lemma find_first_None: "find_first P xs = None \<longleftrightarrow> (\<forall>x\<in>set xs. \<not> P x)"
  by (induction xs) (auto split: option.splits)

lemma findById_Some:
  "findById ident k xs = Some (i, x) \<Longrightarrow> i < length xs \<and> xs ! i = x \<and> ident x = k"
  unfolding findById_def by (rule find_first_Some)

section \<open>Frame of a product update\<close>

lemma updateProduct_absent:
  "findById p_id ident (products st) = None \<Longrightarrow>
     updateProduct w ident b files st = (NextErr ''Product Not Found'' 404, st)"
  by (simp add: updateProduct_def)

lemma updateProduct_found:
  assumes "findById p_id ident (products st) = Some (i, p0)"
  shows "updateProduct w ident b files st =
    (Json 200 (ok_message ''Product Updated Successfully''),
     st\<lparr>deleted_images :=
           (case files of None \<Rightarrow> deleted_images st
            | Some fs \<Rightarrow> if fs = [] then deleted_images st
                         else deleted_images st @ map public_id (photos p0)),
        products := (products st)[i := p0
          \<lparr>photos := (case files of None \<Rightarrow> photos p0
                       | Some fs \<Rightarrow> if fs = [] then photos p0 else uploadToCloudinary w fs),
           name := (if truthy (upd_name b) then upd_name b else name p0),
           price := (if truthy (upd_price b) then upd_price b else price p0),
           stock := (if truthy (upd_stock b) then upd_stock b else stock p0),
           category := (if truthy (upd_category b) then upd_category b else category p0),
           description := (if truthy (upd_description b) then upd_description b
                           else description p0)\<rparr>],
        cache := invalidateCache w
          \<lparr>inv_product = True, inv_order = False, inv_admin = True, inv_review = False,
           inv_userId = None, inv_orderId = None, inv_productId = [p_id p0]\<rparr> (cache st)\<rparr>)"
  using assms by (cases files) (simp_all add: updateProduct_def Let_def)

text \<open>
  Claim C9, as stated, fails where it says that supplying 0 for the price or the stock
  leaves the stored value unchanged. The handler tests the raw value of the body: the
  number 0 is falsy, but the text \<^verbatim>\<open>0\<close>, which is what a form field carries, is truthy,
  and the handler assigns it over the stored price and stock.
\<close>

theorem updateProduct_zero_text_overwrites:
  "findById p_id ''p1'' (products shop_state) = Some (0, sample_product)
   \<and> price sample_product = JNum 20 \<and> stock sample_product = JNum 5
   \<and> upd_price form_update = JStr ''0'' \<and> upd_stock form_update = JStr ''0''
   \<and> fst (updateProduct sample_world ''p1'' form_update None shop_state)
       = Json 200 (ok_message ''Product Updated Successfully'')
   \<and> price (products (snd (updateProduct sample_world ''p1'' form_update None shop_state)) ! 0)
       = JStr ''0''
   \<and> stock (products (snd (updateProduct sample_world ''p1'' form_update None shop_state)) ! 0)
       = JStr ''0''"
proof -
  have found: "findById p_id ''p1'' (products shop_state) = Some (0, sample_product)"
    by (simp add: findById_def shop_state_def sample_product_def)
  show ?thesis
    unfolding updateProduct_found [OF found]
    using found by (simp add: form_update_def sample_product_def shop_state_def)
qed

text \<open>
  Claim C9, amended. When the product exists, \<^verbatim>\<open>updateProduct\<close> assigns to each of name,
  price, stock, category and description the value of the body exactly when that value is
  truthy and leaves the field as stored otherwise. So the number 0, like an absent value,
  changes neither the price nor the stock, while the text \<^verbatim>\<open>0\<close> replaces them. The photos
  are replaced by the uploaded ones exactly when at least one file is supplied; the id, the
  ratings and the number of reviews of the product, every other product, and the users,
  orders and reviews stay as they were. When the product does not exist nothing changes.
\<close>

theorem updateProduct_frame:
  "(findById p_id ident (products st) = None \<longrightarrow>
      updateProduct w ident b files st = (NextErr ''Product Not Found'' 404, st))
   \<and> (findById p_id ident (products st) = Some (i, p0) \<longrightarrow>
       (let st' = snd (updateProduct w ident b files st); p' = products st' ! i in
          name p' = (if truthy (upd_name b) then upd_name b else name p0)
        \<and> price p' = (if truthy (upd_price b) then upd_price b else price p0)
        \<and> stock p' = (if truthy (upd_stock b) then upd_stock b else stock p0)
        \<and> category p' = (if truthy (upd_category b) then upd_category b else category p0)
        \<and> description p' = (if truthy (upd_description b) then upd_description b
                             else description p0)
        \<and> (upd_price b = JNum 0 \<or> upd_price b = JUndefined \<longrightarrow> price p' = price p0)
        \<and> (upd_stock b = JNum 0 \<or> upd_stock b = JUndefined \<longrightarrow> stock p' = stock p0)
        \<and> (upd_price b = JStr ''0'' \<longrightarrow> price p' = JStr ''0'')
        \<and> (upd_stock b = JStr ''0'' \<longrightarrow> stock p' = JStr ''0'')
        \<and> photos p' = (case files of None \<Rightarrow> photos p0
                        | Some fs \<Rightarrow> if fs = [] then photos p0 else uploadToCloudinary w fs)
        \<and> p_id p' = p_id p0 \<and> ratings p' = ratings p0 \<and> numOfReviews p' = numOfReviews p0
        \<and> length (products st') = length (products st)
        \<and> (\<forall>j<length (products st). j \<noteq> i \<longrightarrow> products st' ! j = products st ! j)
        \<and> users st' = users st \<and> orders st' = orders st \<and> reviews st' = reviews st))"
proof (intro conjI impI)
  assume "findById p_id ident (products st) = None"
  then show "updateProduct w ident b files st = (NextErr ''Product Not Found'' 404, st)"
    by (rule updateProduct_absent)
next
  assume found: "findById p_id ident (products st) = Some (i, p0)"
  then have i: "i < length (products st)"
    by (simp add: findById_Some)
  show "let st' = snd (updateProduct w ident b files st); p' = products st' ! i in
          name p' = (if truthy (upd_name b) then upd_name b else name p0)
        \<and> price p' = (if truthy (upd_price b) then upd_price b else price p0)
        \<and> stock p' = (if truthy (upd_stock b) then upd_stock b else stock p0)
        \<and> category p' = (if truthy (upd_category b) then upd_category b else category p0)
        \<and> description p' = (if truthy (upd_description b) then upd_description b
                             else description p0)
        \<and> (upd_price b = JNum 0 \<or> upd_price b = JUndefined \<longrightarrow> price p' = price p0)
        \<and> (upd_stock b = JNum 0 \<or> upd_stock b = JUndefined \<longrightarrow> stock p' = stock p0)
        \<and> (upd_price b = JStr ''0'' \<longrightarrow> price p' = JStr ''0'')
        \<and> (upd_stock b = JStr ''0'' \<longrightarrow> stock p' = JStr ''0'')
        \<and> photos p' = (case files of None \<Rightarrow> photos p0
                        | Some fs \<Rightarrow> if fs = [] then photos p0 else uploadToCloudinary w fs)
        \<and> p_id p' = p_id p0 \<and> ratings p' = ratings p0 \<and> numOfReviews p' = numOfReviews p0
        \<and> length (products st') = length (products st)
        \<and> (\<forall>j<length (products st). j \<noteq> i \<longrightarrow> products st' ! j = products st ! j)
        \<and> users st' = users st \<and> orders st' = orders st \<and> reviews st' = reviews st"
    unfolding updateProduct_found [OF found] Let_def
    using i by auto
qed

theorem updateProduct_frame_witness:
  "findById p_id ''zz'' (products shop_state) = None
   \<and> updateProduct sample_world ''zz'' sample_update None shop_state
       = (NextErr ''Product Not Found'' 404, shop_state)
   \<and> findById p_id ''p1'' (products shop_state) = Some (0, sample_product)
   \<and> upd_price sample_update = JNum 0 \<and> upd_stock sample_update = JNum 0
   \<and> (1::nat) < length (products shop_state) \<and> (1::nat) \<noteq> 0
   \<and> (let st' = snd (updateProduct sample_world ''p1'' sample_update (Some [''f1'']) shop_state);
           p' = products st' ! 0 in
         name p' = JStr ''Desk lamp'' \<and> price p' = JNum 20 \<and> stock p' = JNum 5
         \<and> category p' = JStr ''home'' \<and> description p' = JStr ''Brighter''
         \<and> photos p' = [\<lparr>public_id = ''f1'', url = ''https://img.example/f1''\<rparr>]
         \<and> p_id p' = ''p1'' \<and> products st' ! 1 = sample_product2)
   \<and> upd_price form_update = JStr ''0'' \<and> upd_stock form_update = JStr ''0''
   \<and> (let st' = snd (updateProduct sample_world ''p1'' form_update None shop_state);
           p' = products st' ! 0 in
         name p' = JStr ''Lamp'' \<and> price p' = JStr ''0'' \<and> stock p' = JStr ''0''
         \<and> photos p' = photos sample_product)"
proof -
  have absent: "findById p_id ''zz'' (products shop_state) = None"
    by (simp add: findById_def shop_state_def sample_product_def sample_product2_def)
  have found: "findById p_id ''p1'' (products shop_state) = Some (0, sample_product)"
    by (simp add: findById_def shop_state_def sample_product_def)
  note no = updateProduct_frame
    [where ident = "''zz''" and st = shop_state and w = sample_world and b = sample_update
       and files = None]
  note yes = updateProduct_frame
    [where ident = "''p1''" and st = shop_state and w = sample_world and b = sample_update
       and files = "Some [''f1'']" and i = 0 and ?p0.0 = sample_product]
  note form = updateProduct_frame
    [where ident = "''p1''" and st = shop_state and w = sample_world and b = form_update
       and files = None and i = 0 and ?p0.0 = sample_product]
  have other: "products (snd (updateProduct sample_world ''p1'' sample_update (Some [''f1''])
      shop_state)) ! 1 = products shop_state ! 1"
    using yes found by (simp add: Let_def shop_state_def)
  have fields: "let st' = snd (updateProduct sample_world ''p1'' sample_update (Some [''f1''])
        shop_state); p' = products st' ! 0 in
      name p' = JStr ''Desk lamp'' \<and> price p' = JNum 20 \<and> stock p' = JNum 5
      \<and> category p' = JStr ''home'' \<and> description p' = JStr ''Brighter''
      \<and> photos p' = [\<lparr>public_id = ''f1'', url = ''https://img.example/f1''\<rparr>]
      \<and> p_id p' = ''p1''"
    using yes found
    by (simp add: Let_def sample_update_def sample_product_def sample_world_def)
  have texts: "let st' = snd (updateProduct sample_world ''p1'' form_update None shop_state);
        p' = products st' ! 0 in
      name p' = JStr ''Lamp'' \<and> price p' = JStr ''0'' \<and> stock p' = JStr ''0''
      \<and> photos p' = photos sample_product"
    using form found
    by (simp add: Let_def form_update_def sample_product_def)
  show ?thesis
    using no absent found other fields texts
    by (simp add: Let_def sample_update_def form_update_def shop_state_def)
qed

section \<open>The rating aggregator\<close>

lemma deleteReview_stores_average:
  assumes "findById p_id pid (products st) = Some (i, p0)"
    and "findById r_id reviewId (reviews st) = Some (j, rev0)"
  shows "products (snd (deleteReview w pid reviewId st)) =
    (products st)[i := p0
      \<lparr>ratings := fst (findAverageRatings (p_id p0)
                        (take j (reviews st) @ drop (Suc j) (reviews st))),
       numOfReviews := snd (findAverageRatings (p_id p0)
                        (take j (reviews st) @ drop (Suc j) (reviews st)))\<rparr>]"
  using assms by (simp add: deleteReview_def Let_def)

text \<open>
  Claim C3. For every product id the aggregator returns the number of reviews that
  reference the product and the arithmetic mean of their ratings: the count times the mean
  is the sum of the ratings, and the mean is that sum divided by the count when there is a
  review. With no review it returns average 0 and count 0. For ratings 3 and 5 it returns
  average 4 and count 2.
\<close>

theorem findAverageRatings_mean:
  "snd (findAverageRatings pid rs) = length (filter (\<lambda>r. r_product r = pid) rs)
   \<and> of_nat (snd (findAverageRatings pid rs)) * fst (findAverageRatings pid rs)
       = sum_list (map rating (filter (\<lambda>r. r_product r = pid) rs))
   \<and> (filter (\<lambda>r. r_product r = pid) rs \<noteq> [] \<longrightarrow>
        fst (findAverageRatings pid rs)
          = sum_list (map rating (filter (\<lambda>r. r_product r = pid) rs))
              / of_nat (length (filter (\<lambda>r. r_product r = pid) rs)))
   \<and> (filter (\<lambda>r. r_product r = pid) rs = [] \<longrightarrow> findAverageRatings pid rs = (0, 0))
   \<and> (map rating (filter (\<lambda>r. r_product r = pid) rs) = [3, 5] \<longrightarrow>
        findAverageRatings pid rs = (4, 2))"
proof (intro conjI impI)
  show "snd (findAverageRatings pid rs) = length (filter (\<lambda>r. r_product r = pid) rs)"
    by (simp add: findAverageRatings_def Let_def)
  show "of_nat (snd (findAverageRatings pid rs)) * fst (findAverageRatings pid rs)
       = sum_list (map rating (filter (\<lambda>r. r_product r = pid) rs))"
    by (simp add: findAverageRatings_def Let_def)
  show "fst (findAverageRatings pid rs)
          = sum_list (map rating (filter (\<lambda>r. r_product r = pid) rs))
              / of_nat (length (filter (\<lambda>r. r_product r = pid) rs))"
    if "filter (\<lambda>r. r_product r = pid) rs \<noteq> []"
    using that by (simp add: findAverageRatings_def Let_def)
  show "findAverageRatings pid rs = (0, 0)" if "filter (\<lambda>r. r_product r = pid) rs = []"
    using that by (simp add: findAverageRatings_def Let_def)
  show "findAverageRatings pid rs = (4, 2)"
    if m: "map rating (filter (\<lambda>r. r_product r = pid) rs) = [3, 5]"
  proof -
    have len: "length (filter (\<lambda>r. r_product r = pid) rs) = 2"
      using arg_cong [OF m, of length] by simp
    then have "filter (\<lambda>r. r_product r = pid) rs \<noteq> []"
      by auto
    with len show ?thesis
      by (simp add: findAverageRatings_def Let_def m)
  qed
qed

theorem findAverageRatings_mean_witness:
  "filter (\<lambda>r. r_product r = ''p1'') sample_reviews \<noteq> []
   \<and> map rating (filter (\<lambda>r. r_product r = ''p1'') sample_reviews) = [3, 5]
   \<and> findAverageRatings ''p1'' sample_reviews = (4, 2)
   \<and> fst (findAverageRatings ''p1'' sample_reviews) = (3 + 5) / 2
   \<and> filter (\<lambda>r. r_product r = ''p9'') sample_reviews = []
   \<and> findAverageRatings ''p9'' sample_reviews = (0, 0)"
proof -
  have two: "map rating (filter (\<lambda>r. r_product r = ''p1'') sample_reviews) = [3, 5]"
    by (simp add: sample_reviews_def)
  have some: "filter (\<lambda>r. r_product r = ''p1'') sample_reviews \<noteq> []"
    by (simp add: sample_reviews_def)
  have none: "filter (\<lambda>r. r_product r = ''p9'') sample_reviews = []"
    by (simp add: sample_reviews_def)
  show ?thesis
    using findAverageRatings_mean [where pid = "''p1''" and rs = sample_reviews]
      findAverageRatings_mean [where pid = "''p9''" and rs = sample_reviews]
      two some none
    by simp
qed

section \<open>Review upsert\<close>

lemma find_first_update:
  "find_first P xs = Some (i, x) \<Longrightarrow> P y \<Longrightarrow> find_first P (xs[i := y]) = Some (i, y)"
proof (induction xs arbitrary: i)
  case Nil
  then show ?case by simp
next
  case (Cons z zs)
  show ?case
  proof (cases "P z")
    case True
    with Cons.prems show ?thesis by simp
  next
    case False
    with Cons.prems obtain j where j: "find_first P zs = Some (j, x)" and i: "i = Suc j"
      by (auto split: option.splits)
    from Cons.IH [OF j Cons.prems(2)] i False show ?thesis by simp
  qed
qed

lemma find_first_append_new:
  "find_first P xs = None \<Longrightarrow> P y \<Longrightarrow> find_first P (xs @ [y]) = Some (length xs, y)"
proof (induction xs)
  case Nil
  then show ?case by simp
next
  case (Cons z zs)
  from Cons.prems(1) have z: "\<not> P z" and zs: "find_first P zs = None"
    by (auto split: if_splits option.splits)
  from Cons.IH [OF zs Cons.prems(2)] z show ?case by simp
qed

lemma length_filter_update:
  "j < length xs \<Longrightarrow> P y = P (xs ! j) \<Longrightarrow> length (filter P (xs[j := y])) = length (filter P xs)"
proof (induction xs arbitrary: j)
  case Nil
  then show ?case by simp
next
  case (Cons z zs)
  then show ?case by (cases j) simp_all
qed

lemma newReview_found:
  assumes u: "find_user qid (users st) = Some (ui, usr)"
    and p: "findById p_id pid (products st) = Some (i, p0)"
  shows "newReview w qid pid b st =
    (let already = find_first (\<lambda>r. r_user r = u_id usr \<and> r_product r = pid) (reviews st);
         rs' = (case already of
                  Some (j, rev0) \<Rightarrow>
                    (reviews st)[j := rev0\<lparr>comment := body_comment b, rating := body_rating b\<rparr>]
                | None \<Rightarrow>
                    reviews st @ [\<lparr>r_id = new_ObjectId w (store_of st),
                                   comment = body_comment b, rating = body_rating b,
                                   r_user = u_id usr, r_product = pid\<rparr>])
     in (Json (if already \<noteq> None then 200 else 201)
           (ok_message (if already \<noteq> None then ''Review Updated'' else ''Review Added'')),
         st\<lparr>reviews := rs',
            products := (products st)[i := p0\<lparr>ratings := fst (findAverageRatings pid rs'),
                                              numOfReviews := snd (findAverageRatings pid rs')\<rparr>],
            cache := invalidateCache w
              \<lparr>inv_product = True, inv_order = False, inv_admin = True, inv_review = True,
               inv_userId = None, inv_orderId = None, inv_productId = [pid]\<rparr> (cache st)\<rparr>))"
proof -
  have pid: "p_id p0 = pid"
    using findById_Some [OF p] by simp
  show ?thesis
    using u p by (simp add: newReview_def Let_def pid split: option.split)
qed

lemma newReview_keeps_one_per_pair:
  assumes "one_review_per_pair (reviews st)"
  shows "one_review_per_pair (reviews (snd (newReview w qid pid b st)))"
proof (cases "find_user qid (users st)")
  case None
  with assms show ?thesis by (simp add: newReview_def)
next
  case (Some a)
  then obtain ui usr where u: "find_user qid (users st) = Some (ui, usr)"
    by (cases a) simp
  show ?thesis
  proof (cases "findById p_id pid (products st)")
    case None
    with assms u show ?thesis by (simp add: newReview_def)
  next
    case (Some c)
    then obtain i p0 where p: "findById p_id pid (products st) = Some (i, p0)"
      by (cases c) simp
    let ?mine = "\<lambda>r. r_user r = u_id usr \<and> r_product r = pid"
    show ?thesis
    proof (cases "find_first ?mine (reviews st)")
      case None
      then have "(u_id usr, pid) \<notin> set (map (\<lambda>r. (r_user r, r_product r)) (reviews st))"
        by (auto simp: find_first_None)
      with assms None show ?thesis
        by (simp add: newReview_found [OF u p] one_review_per_pair_def Let_def)
    next
      case (Some d)
      then obtain j rev0 where f: "find_first ?mine (reviews st) = Some (j, rev0)"
        by (cases d) simp
      from find_first_Some [OF f] have j: "j < length (reviews st)"
        and r: "reviews st ! j = rev0" by simp_all
      have "map (\<lambda>r. (r_user r, r_product r))
              ((reviews st)[j := rev0\<lparr>comment := body_comment b, rating := body_rating b\<rparr>])
            = map (\<lambda>r. (r_user r, r_product r)) (reviews st)"
        using j r by (simp add: map_update list_update_same_conv)
      with assms f show ?thesis
        by (simp add: newReview_found [OF u p] one_review_per_pair_def Let_def)
    qed
  qed
qed

lemma newReview_again:
  assumes u: "find_user qid (users st) = Some (ui, usr)"
    and p: "findById p_id pid (products st) = Some (i, p0)"
    and st1_def: "st1 = snd (newReview w qid pid b st)"
  shows "find_user qid (users st1) = Some (ui, usr)"
    and "\<exists>p1. findById p_id pid (products st1) = Some (i, p1)"
    and "\<exists>j r1. find_first (\<lambda>r. r_user r = u_id usr \<and> r_product r = pid) (reviews st1)
           = Some (j, r1)"
proof -
  let ?mine = "\<lambda>r. r_user r = u_id usr \<and> r_product r = pid"
  have pid: "p_id p0 = pid"
    using findById_Some [OF p] by simp
  show "find_user qid (users st1) = Some (ui, usr)"
    using u by (simp add: st1_def newReview_found [OF u p] Let_def)
  have "findById p_id pid ((products st)[i := p0\<lparr>ratings := x, numOfReviews := n\<rparr>])
      = Some (i, p0\<lparr>ratings := x, numOfReviews := n\<rparr>)" for x n
    using p pid unfolding findById_def by (intro find_first_update) simp_all
  then show "\<exists>p1. findById p_id pid (products st1) = Some (i, p1)"
    by (simp add: st1_def newReview_found [OF u p] Let_def)
  show "\<exists>j r1. find_first ?mine (reviews st1) = Some (j, r1)"
  proof (cases "find_first ?mine (reviews st)")
    case None
    then show ?thesis
      by (simp add: st1_def newReview_found [OF u p] Let_def find_first_append_new)
  next
    case (Some d)
    then obtain j rev0 where f: "find_first ?mine (reviews st) = Some (j, rev0)"
      by (cases d) simp
    from find_first_Some [OF f] have "?mine rev0" by simp
    then have "find_first ?mine
        ((reviews st)[j := rev0\<lparr>comment := body_comment b, rating := body_rating b\<rparr>])
        = Some (j, rev0\<lparr>comment := body_comment b, rating := body_rating b\<rparr>)"
      by (intro find_first_update [OF f]) simp
    with f show ?thesis
      by (simp add: st1_def newReview_found [OF u p] Let_def)
  qed
qed

lemma newReview_update_counts:
  assumes u: "find_user qid (users st) = Some (ui, usr)"
    and p: "findById p_id pid (products st) = Some (i, p0)"
    and f: "find_first (\<lambda>r. r_user r = u_id usr \<and> r_product r = pid) (reviews st)
              = Some (j, rev0)"
    and st1_def: "st1 = snd (newReview w qid pid b st)"
  shows "reviews st1 = (reviews st)[j := rev0\<lparr>comment := body_comment b, rating := body_rating b\<rparr>]"
    and "length (reviews st1) = length (reviews st)"
    and "fst (newReview w qid pid b st) = Json 200 (ok_message ''Review Updated'')"
    and "length (filter (\<lambda>r. r_product r = pid) (reviews st1))
           = length (filter (\<lambda>r. r_product r = pid) (reviews st))"
    and "numOfReviews (products st1 ! i) = length (filter (\<lambda>r. r_product r = pid) (reviews st))"
proof -
  from find_first_Some [OF f] have j: "j < length (reviews st)"
    and r: "reviews st ! j = rev0" and m: "r_product rev0 = pid" by simp_all
  from findById_Some [OF p] have i: "i < length (products st)" by simp
  show rs: "reviews st1
      = (reviews st)[j := rev0\<lparr>comment := body_comment b, rating := body_rating b\<rparr>]"
    using f by (simp add: st1_def newReview_found [OF u p] Let_def)
  then show "length (reviews st1) = length (reviews st)" by simp
  show "fst (newReview w qid pid b st) = Json 200 (ok_message ''Review Updated'')"
    using f by (simp add: newReview_found [OF u p] Let_def)
  show cnt: "length (filter (\<lambda>r. r_product r = pid) (reviews st1))
           = length (filter (\<lambda>r. r_product r = pid) (reviews st))"
    unfolding rs using j r m by (intro length_filter_update) simp_all
  have "numOfReviews (products st1 ! i) = length (filter (\<lambda>r. r_product r = pid) (reviews st1))"
    using i f
    by (simp add: st1_def newReview_found [OF u p] Let_def findAverageRatings_def)
  with cnt show "numOfReviews (products st1 ! i)
      = length (filter (\<lambda>r. r_product r = pid) (reviews st))" by simp
qed

lemma newReview_create_counts:
  assumes u: "find_user qid (users st) = Some (ui, usr)"
    and p: "findById p_id pid (products st) = Some (i, p0)"
    and f: "find_first (\<lambda>r. r_user r = u_id usr \<and> r_product r = pid) (reviews st) = None"
    and st1_def: "st1 = snd (newReview w qid pid b st)"
  shows "length (reviews st1) = Suc (length (reviews st))"
    and "fst (newReview w qid pid b st) = Json 201 (ok_message ''Review Added'')"
    and "length (filter (\<lambda>r. r_product r = pid) (reviews st1))
           = Suc (length (filter (\<lambda>r. r_product r = pid) (reviews st)))"
    and "numOfReviews (products st1 ! i)
           = Suc (length (filter (\<lambda>r. r_product r = pid) (reviews st)))"
proof -
  from findById_Some [OF p] have i: "i < length (products st)" by simp
  show "length (reviews st1) = Suc (length (reviews st))"
    using f by (simp add: st1_def newReview_found [OF u p] Let_def)
  show "fst (newReview w qid pid b st) = Json 201 (ok_message ''Review Added'')"
    using f by (simp add: newReview_found [OF u p] Let_def)
  show "length (filter (\<lambda>r. r_product r = pid) (reviews st1))
           = Suc (length (filter (\<lambda>r. r_product r = pid) (reviews st)))"
    using f by (simp add: st1_def newReview_found [OF u p] Let_def)
  show "numOfReviews (products st1 ! i)
           = Suc (length (filter (\<lambda>r. r_product r = pid) (reviews st)))"
    using i f by (simp add: st1_def newReview_found [OF u p] Let_def findAverageRatings_def)
qed

text \<open>
  Claim C4. When a review by the user for the product already exists, \<^verbatim>\<open>newReview\<close>
  overwrites the comment and the rating of that review and creates none; a review is
  created only when there is none for the pair. So a store with at most one review per user
  and product still has at most one per pair after any call, and a second submission by the
  same user for the same product is an update that leaves the number of reviews of the
  product, and the count kept on the product, as the first submission left them: 1 when the
  product had no review before.
\<close>

theorem newReview_upsert:
  "(one_review_per_pair (reviews st) \<longrightarrow>
      one_review_per_pair (reviews (snd (newReview w qid pid b1 st))))
   \<and> (find_user qid (users st) = Some (ui, usr) \<and> findById p_id pid (products st) = Some (i, p0)
      \<longrightarrow>
      (let mine = (\<lambda>r. r_user r = u_id usr \<and> r_product r = pid);
           st1 = snd (newReview w qid pid b1 st);
           st2 = snd (newReview w qid pid b2 st1) in
         (\<forall>j rev0. find_first mine (reviews st) = Some (j, rev0) \<longrightarrow>
             reviews st1 =
               (reviews st)[j := rev0\<lparr>comment := body_comment b1, rating := body_rating b1\<rparr>]
           \<and> fst (newReview w qid pid b1 st) = Json 200 (ok_message ''Review Updated'')
           \<and> numOfReviews (products st1 ! i)
               = length (filter (\<lambda>r. r_product r = pid) (reviews st)))
       \<and> (find_first mine (reviews st) = None \<longrightarrow>
             length (reviews st1) = Suc (length (reviews st))
           \<and> fst (newReview w qid pid b1 st) = Json 201 (ok_message ''Review Added''))
       \<and> fst (newReview w qid pid b2 st1) = Json 200 (ok_message ''Review Updated'')
       \<and> length (reviews st2) = length (reviews st1)
       \<and> length (filter (\<lambda>r. r_product r = pid) (reviews st2))
           = length (filter (\<lambda>r. r_product r = pid) (reviews st1))
       \<and> numOfReviews (products st2 ! i) = numOfReviews (products st1 ! i)
       \<and> (filter (\<lambda>r. r_product r = pid) (reviews st) = [] \<longrightarrow>
             numOfReviews (products st1 ! i) = 1 \<and> numOfReviews (products st2 ! i) = 1
           \<and> length (filter (\<lambda>r. r_product r = pid) (reviews st2)) = 1)))"
proof (intro conjI impI)
  assume "one_review_per_pair (reviews st)"
  then show "one_review_per_pair (reviews (snd (newReview w qid pid b1 st)))"
    by (rule newReview_keeps_one_per_pair)
next
  assume "find_user qid (users st) = Some (ui, usr) \<and> findById p_id pid (products st) = Some (i, p0)"
  then have u: "find_user qid (users st) = Some (ui, usr)"
    and p: "findById p_id pid (products st) = Some (i, p0)" by simp_all
  let ?mine = "\<lambda>r. r_user r = u_id usr \<and> r_product r = pid"
  let ?of_p = "\<lambda>r. r_product r = pid"
  define st1 where "st1 = snd (newReview w qid pid b1 st)"
  define st2 where "st2 = snd (newReview w qid pid b2 st1)"
  from newReview_again [OF u p st1_def] obtain p1 j1 r1
    where u1: "find_user qid (users st1) = Some (ui, usr)"
      and p1: "findById p_id pid (products st1) = Some (i, p1)"
      and f1: "find_first ?mine (reviews st1) = Some (j1, r1)"
    by blast
  note second = newReview_update_counts [OF u1 p1 f1 st2_def]
  have upd: "reviews st1 =
        (reviews st)[j := rev0\<lparr>comment := body_comment b1, rating := body_rating b1\<rparr>]
      \<and> fst (newReview w qid pid b1 st) = Json 200 (ok_message ''Review Updated'')
      \<and> numOfReviews (products st1 ! i) = length (filter ?of_p (reviews st))"
    if "find_first ?mine (reviews st) = Some (j, rev0)" for j rev0
    using newReview_update_counts [OF u p that st1_def] by simp
  have new: "length (reviews st1) = Suc (length (reviews st))
      \<and> fst (newReview w qid pid b1 st) = Json 201 (ok_message ''Review Added'')"
    if "find_first ?mine (reviews st) = None"
    using newReview_create_counts [OF u p that st1_def] by simp
  have kept: "numOfReviews (products st1 ! i) = length (filter ?of_p (reviews st1))"
  proof (cases "find_first ?mine (reviews st)")
    case None
    from newReview_create_counts [OF u p None st1_def] show ?thesis by simp
  next
    case (Some d)
    then obtain j rev0 where "find_first ?mine (reviews st) = Some (j, rev0)"
      by (cases d) simp
    from newReview_update_counts [OF u p this st1_def] show ?thesis by simp
  qed
  have same: "numOfReviews (products st2 ! i) = numOfReviews (products st1 ! i)"
    using second(5) kept by simp
  have first: "numOfReviews (products st1 ! i) = 1 \<and> numOfReviews (products st2 ! i) = 1
      \<and> length (filter ?of_p (reviews st2)) = 1"
    if none: "filter ?of_p (reviews st) = []"
  proof -
    have "\<forall>r\<in>set (reviews st). \<not> ?of_p r"
      using none by (simp add: filter_empty_conv)
    then have "find_first ?mine (reviews st) = None"
      by (simp add: find_first_None)
    from newReview_create_counts [OF u p this st1_def] none
    have "numOfReviews (products st1 ! i) = 1" by simp
    with same kept second(4) show ?thesis by simp
  qed
  show "let mine = ?mine; st1 = snd (newReview w qid pid b1 st);
            st2 = snd (newReview w qid pid b2 st1) in
         (\<forall>j rev0. find_first mine (reviews st) = Some (j, rev0) \<longrightarrow>
             reviews st1 =
               (reviews st)[j := rev0\<lparr>comment := body_comment b1, rating := body_rating b1\<rparr>]
           \<and> fst (newReview w qid pid b1 st) = Json 200 (ok_message ''Review Updated'')
           \<and> numOfReviews (products st1 ! i)
               = length (filter (\<lambda>r. r_product r = pid) (reviews st)))
       \<and> (find_first mine (reviews st) = None \<longrightarrow>
             length (reviews st1) = Suc (length (reviews st))
           \<and> fst (newReview w qid pid b1 st) = Json 201 (ok_message ''Review Added''))
       \<and> fst (newReview w qid pid b2 st1) = Json 200 (ok_message ''Review Updated'')
       \<and> length (reviews st2) = length (reviews st1)
       \<and> length (filter (\<lambda>r. r_product r = pid) (reviews st2))
           = length (filter (\<lambda>r. r_product r = pid) (reviews st1))
       \<and> numOfReviews (products st2 ! i) = numOfReviews (products st1 ! i)
       \<and> (filter (\<lambda>r. r_product r = pid) (reviews st) = [] \<longrightarrow>
             numOfReviews (products st1 ! i) = 1 \<and> numOfReviews (products st2 ! i) = 1
           \<and> length (filter (\<lambda>r. r_product r = pid) (reviews st2)) = 1)"
    unfolding Let_def st1_def [symmetric] st2_def [symmetric]
    using upd new second(2,3,4) same first by blast
qed

theorem newReview_upsert_witness:
  "one_review_per_pair (reviews reviewed_state)
   \<and> one_review_per_pair
        (reviews (snd (newReview sample_world (Some ''u1'') ''p1'' sample_review_body
           reviewed_state)))
   \<and> find_user (Some ''u1'') (users reviewed_state) = Some (0, sample_user)
   \<and> findById p_id ''p1'' (products reviewed_state) = Some (0, sample_product)
   \<and> find_first (\<lambda>r. r_user r = u_id sample_user \<and> r_product r = ''p1'')
         (reviews reviewed_state) = Some (0, sample_reviews ! 0)
   \<and> reviews (snd (newReview sample_world (Some ''u1'') ''p1'' sample_review_body
         reviewed_state))
       = sample_reviews[0 := (sample_reviews ! 0)\<lparr>comment := ''Good'', rating := 4\<rparr>]
   \<and> fst (newReview sample_world (Some ''u1'') ''p1'' sample_review_body reviewed_state)
       = Json 200 (ok_message ''Review Updated'')
   \<and> find_first (\<lambda>r. r_user r = u_id sample_user \<and> r_product r = ''p1'')
         (reviews shop_state) = None
   \<and> filter (\<lambda>r. r_product r = ''p1'') (reviews shop_state) = []
   \<and> fst (newReview sample_world (Some ''u1'') ''p1'' sample_review_body shop_state)
       = Json 201 (ok_message ''Review Added'')
   \<and> fst (newReview sample_world (Some ''u1'') ''p1'' sample_review_body2
         (snd (newReview sample_world (Some ''u1'') ''p1'' sample_review_body shop_state)))
       = Json 200 (ok_message ''Review Updated'')
   \<and> numOfReviews (products (snd (newReview sample_world (Some ''u1'') ''p1'' sample_review_body2
         (snd (newReview sample_world (Some ''u1'') ''p1'' sample_review_body shop_state)))) ! 0)
       = 1
   \<and> length (filter (\<lambda>r. r_product r = ''p1'')
         (reviews (snd (newReview sample_world (Some ''u1'') ''p1'' sample_review_body2
           (snd (newReview sample_world (Some ''u1'') ''p1'' sample_review_body shop_state))))))
       = 1"
proof -
  have inv: "one_review_per_pair (reviews reviewed_state)"
    by (simp add: one_review_per_pair_def reviewed_state_def sample_reviews_def)
  have u: "find_user (Some ''u1'') (users reviewed_state) = Some (0, sample_user)"
    "find_user (Some ''u1'') (users shop_state) = Some (0, sample_user)"
    by (simp_all add: find_user_def findById_def reviewed_state_def shop_state_def
        sample_user_def)
  have p: "findById p_id ''p1'' (products reviewed_state) = Some (0, sample_product)"
    "findById p_id ''p1'' (products shop_state) = Some (0, sample_product)"
    by (simp_all add: findById_def reviewed_state_def shop_state_def sample_product_def)
  have old: "find_first (\<lambda>r. r_user r = u_id sample_user \<and> r_product r = ''p1'')
         (reviews reviewed_state) = Some (0, sample_reviews ! 0)"
    by (simp add: reviewed_state_def sample_reviews_def sample_user_def)
  have fresh: "find_first (\<lambda>r. r_user r = u_id sample_user \<and> r_product r = ''p1'')
         (reviews shop_state) = None"
    "filter (\<lambda>r. r_product r = ''p1'') (reviews shop_state) = []"
    by (simp_all add: shop_state_def)
  note a = newReview_upsert
    [where st = reviewed_state and w = sample_world and qid = "Some ''u1''" and pid = "''p1''"
       and ?b1.0 = sample_review_body and ?b2.0 = sample_review_body2 and ui = 0
       and usr = sample_user and i = 0 and ?p0.0 = sample_product]
  note b = newReview_upsert
    [where st = shop_state and w = sample_world and qid = "Some ''u1''" and pid = "''p1''"
       and ?b1.0 = sample_review_body and ?b2.0 = sample_review_body2 and ui = 0
       and usr = sample_user and i = 0 and ?p0.0 = sample_product]
  have a1: "one_review_per_pair
        (reviews (snd (newReview sample_world (Some ''u1'') ''p1'' sample_review_body
           reviewed_state)))"
    using a inv by blast
  have a2: "reviews (snd (newReview sample_world (Some ''u1'') ''p1'' sample_review_body
         reviewed_state))
       = (reviews reviewed_state)[0 := (sample_reviews ! 0)
            \<lparr>comment := body_comment sample_review_body,
             rating := body_rating sample_review_body\<rparr>]
     \<and> fst (newReview sample_world (Some ''u1'') ''p1'' sample_review_body reviewed_state)
       = Json 200 (ok_message ''Review Updated'')"
    using a u(1) p(1) old unfolding Let_def by blast
  have b1: "fst (newReview sample_world (Some ''u1'') ''p1'' sample_review_body shop_state)
       = Json 201 (ok_message ''Review Added'')
     \<and> fst (newReview sample_world (Some ''u1'') ''p1'' sample_review_body2
         (snd (newReview sample_world (Some ''u1'') ''p1'' sample_review_body shop_state)))
       = Json 200 (ok_message ''Review Updated'')
     \<and> numOfReviews (products (snd (newReview sample_world (Some ''u1'') ''p1''
         sample_review_body2
         (snd (newReview sample_world (Some ''u1'') ''p1'' sample_review_body shop_state)))) ! 0)
       = 1
     \<and> length (filter (\<lambda>r. r_product r = ''p1'')
         (reviews (snd (newReview sample_world (Some ''u1'') ''p1'' sample_review_body2
           (snd (newReview sample_world (Some ''u1'') ''p1'' sample_review_body shop_state))))))
       = 1"
    using b u(2) p(2) fresh unfolding Let_def by blast
  show ?thesis
    using inv u(1) p(1) old fresh a1 a2 b1
    by (simp add: reviewed_state_def sample_review_body_def)
qed

section \<open>Cache keys\<close>

lemma split_at_hyphen:
  assumes "CHR ''-'' \<notin> set a" and "CHR ''-'' \<notin> set a'"
    and "a @ ''-'' @ r = a' @ ''-'' @ r'"
  shows "a = a' \<and> r = r'"
  using assms
proof (induction a arbitrary: a')
  case Nil
  then show ?case by (cases a') auto
next
  case (Cons x xs)
  show ?case
  proof (cases a')
    case Nil
    with Cons.prems show ?thesis by auto
  next
    case (Cons y ys)
    with Cons.prems Cons.IH [of ys] show ?thesis by auto
  qed
qed

lemma tmpl_inj:
  "tmpl x = tmpl y \<Longrightarrow> x \<noteq> Some ''undefined'' \<Longrightarrow> y \<noteq> Some ''undefined'' \<Longrightarrow> x = y"
  by (cases x; cases y) auto

lemma products_key_parts:
  assumes q: "plain_params q" and q': "plain_params q'"
    and k: "products_key w q = products_key w q'"
  shows "query_search q = query_search q' \<and> query_sort q = query_sort q'
     \<and> query_category q = query_category q' \<and> query_price q = query_price q'
     \<and> String_num w (number_or w (query_page q) 1) = String_num w (number_or w (query_page q') 1)"
proof -
  from k have k1: "tmpl (query_search q) @ ''-'' @ (tmpl (query_sort q) @ ''-'' @
        (tmpl (query_category q) @ ''-'' @ (tmpl (query_price q) @ ''-'' @
          String_num w (number_or w (query_page q) 1))))
      = tmpl (query_search q') @ ''-'' @ (tmpl (query_sort q') @ ''-'' @
        (tmpl (query_category q') @ ''-'' @ (tmpl (query_price q') @ ''-'' @
          String_num w (number_or w (query_page q') 1))))"
    by (simp add: products_key_def)
  from q q' have h: "CHR ''-'' \<notin> set (tmpl (query_search q))"
      "CHR ''-'' \<notin> set (tmpl (query_search q'))"
      "CHR ''-'' \<notin> set (tmpl (query_sort q))" "CHR ''-'' \<notin> set (tmpl (query_sort q'))"
      "CHR ''-'' \<notin> set (tmpl (query_category q))" "CHR ''-'' \<notin> set (tmpl (query_category q'))"
      "CHR ''-'' \<notin> set (tmpl (query_price q))" "CHR ''-'' \<notin> set (tmpl (query_price q'))"
    and u: "query_search q \<noteq> Some ''undefined''" "query_search q' \<noteq> Some ''undefined''"
      "query_sort q \<noteq> Some ''undefined''" "query_sort q' \<noteq> Some ''undefined''"
      "query_category q \<noteq> Some ''undefined''" "query_category q' \<noteq> Some ''undefined''"
      "query_price q \<noteq> Some ''undefined''" "query_price q' \<noteq> Some ''undefined''"
    by (simp_all add: plain_params_def plain_text_def)
  from split_at_hyphen [OF h(1,2) k1]
  have s1: "tmpl (query_search q) = tmpl (query_search q')"
    and k2: "tmpl (query_sort q) @ ''-'' @
        (tmpl (query_category q) @ ''-'' @ (tmpl (query_price q) @ ''-'' @
          String_num w (number_or w (query_page q) 1)))
      = tmpl (query_sort q') @ ''-'' @
        (tmpl (query_category q') @ ''-'' @ (tmpl (query_price q') @ ''-'' @
          String_num w (number_or w (query_page q') 1)))"
    by simp_all
  from split_at_hyphen [OF h(3,4) k2]
  have s2: "tmpl (query_sort q) = tmpl (query_sort q')"
    and k3: "tmpl (query_category q) @ ''-'' @ (tmpl (query_price q) @ ''-'' @
          String_num w (number_or w (query_page q) 1))
      = tmpl (query_category q') @ ''-'' @ (tmpl (query_price q') @ ''-'' @
          String_num w (number_or w (query_page q') 1))"
    by simp_all
  from split_at_hyphen [OF h(5,6) k3]
  have s3: "tmpl (query_category q) = tmpl (query_category q')"
    and k4: "tmpl (query_price q) @ ''-'' @ String_num w (number_or w (query_page q) 1)
      = tmpl (query_price q') @ ''-'' @ String_num w (number_or w (query_page q') 1)"
    by simp_all
  from split_at_hyphen [OF h(7,8) k4]
  have s4: "tmpl (query_price q) = tmpl (query_price q')"
    and s5: "String_num w (number_or w (query_page q) 1)
      = String_num w (number_or w (query_page q') 1)"
    by simp_all
  from tmpl_inj [OF s1 u(1,2)] tmpl_inj [OF s2 u(3,4)] tmpl_inj [OF s3 u(5,6)]
    tmpl_inj [OF s4 u(7,8)] s5
  show ?thesis by simp
qed

text \<open>
  Claim C5, as stated, fails: the key of the product listing joins its parameters with
  hyphens and prints an absent parameter as \<^verbatim>\<open>undefined\<close>, so a listing without a
  search and a search for the text \<^verbatim>\<open>undefined\<close> share a key, and so do the search
  \<^verbatim>\<open>t-shirt\<close> sorted \<^verbatim>\<open>asc\<close> and the search \<^verbatim>\<open>t\<close> sorted \<^verbatim>\<open>shirt-asc\<close>, although
  the store is asked different questions.
\<close>

theorem products_key_collision:
  "products_key sample_world no_params
     = products_key sample_world (no_params\<lparr>query_search := Some ''undefined''\<rparr>)
   \<and> build_baseQuery sample_world no_params
     \<noteq> build_baseQuery sample_world (no_params\<lparr>query_search := Some ''undefined''\<rparr>)
   \<and> products_key sample_world
       (no_params\<lparr>query_search := Some ''t-shirt'', query_sort := Some ''asc''\<rparr>)
     = products_key sample_world
       (no_params\<lparr>query_search := Some ''t'', query_sort := Some ''shirt-asc''\<rparr>)
   \<and> build_baseQuery sample_world
       (no_params\<lparr>query_search := Some ''t-shirt'', query_sort := Some ''asc''\<rparr>)
     \<noteq> build_baseQuery sample_world
       (no_params\<lparr>query_search := Some ''t'', query_sort := Some ''shirt-asc''\<rparr>)
   \<and> sort_arg (Some ''asc'') \<noteq> sort_arg (Some ''shirt-asc'')"
  by (simp add: products_key_def build_baseQuery_def no_params_def sort_arg_def Let_def)

text \<open>
  Claim C5, amended. Equal parameters give equal keys. Each key built from one id (the
  orders of a user, an order, a product, the reviews of a product) determines that id. The
  key of the product listing determines the search, the sort, the category, the price and
  the printed page number whenever none of the four texts contains a hyphen or is the
  literal text \<^verbatim>\<open>undefined\<close>.
\<close>

theorem cache_keys_injective:
  "(q = q' \<longrightarrow> products_key w q = products_key w q')
   \<and> (order_key a = order_key a' \<longleftrightarrow> a = a')
   \<and> (product_key a = product_key a' \<longleftrightarrow> a = a')
   \<and> (reviews_key a = reviews_key a' \<longleftrightarrow> a = a')
   \<and> (my_orders_key (Some a) = my_orders_key (Some a') \<longleftrightarrow> a = a')
   \<and> (plain_params q \<and> plain_params q' \<and> products_key w q = products_key w q' \<longrightarrow>
        query_search q = query_search q' \<and> query_sort q = query_sort q'
        \<and> query_category q = query_category q' \<and> query_price q = query_price q'
        \<and> String_num w (number_or w (query_page q) 1)
            = String_num w (number_or w (query_page q') 1))"
  using products_key_parts [of q q' w]
  by (auto simp: order_key_def product_key_def reviews_key_def my_orders_key_def)

theorem cache_keys_injective_witness:
  "plain_params lamp_query
   \<and> products_key sample_world lamp_query = ''products-lamp-undefined-undefined-undefined-2''
   \<and> plain_params (lamp_query\<lparr>query_search := Some ''chair''\<rparr>)
   \<and> products_key sample_world lamp_query
       \<noteq> products_key sample_world (lamp_query\<lparr>query_search := Some ''chair''\<rparr>)
   \<and> order_key ''o1'' \<noteq> order_key ''o2''
   \<and> plain_params (lamp_query\<lparr>query_page := Some ''02''\<rparr>)
   \<and> products_key sample_world lamp_query
       = products_key sample_world (lamp_query\<lparr>query_page := Some ''02''\<rparr>)
   \<and> query_search lamp_query = query_search (lamp_query\<lparr>query_page := Some ''02''\<rparr>)
   \<and> String_num sample_world (number_or sample_world (query_page lamp_query) 1)
       = String_num sample_world
           (number_or sample_world (query_page (lamp_query\<lparr>query_page := Some ''02''\<rparr>)) 1)"
proof -
  have plain2: "plain_params (lamp_query\<lparr>query_page := Some ''02''\<rparr>)"
    by (simp add: plain_params_def plain_text_def lamp_query_def no_params_def)
  have key2: "products_key sample_world lamp_query
       = products_key sample_world (lamp_query\<lparr>query_page := Some ''02''\<rparr>)"
    by (simp add: products_key_def lamp_query_def no_params_def sample_world_def number_or_def
        sample_Number_def digit_val_def)
  have page2: "query_search lamp_query = query_search (lamp_query\<lparr>query_page := Some ''02''\<rparr>)
     \<and> String_num sample_world (number_or sample_world (query_page lamp_query) 1)
       = String_num sample_world
           (number_or sample_world (query_page (lamp_query\<lparr>query_page := Some ''02''\<rparr>)) 1)"
    using cache_keys_injective
      [where q = lamp_query and q' = "lamp_query\<lparr>query_page := Some ''02''\<rparr>"
         and w = sample_world] plain2 key2
    by (simp add: plain_params_def lamp_query_def no_params_def plain_text_def)
  have plain: "plain_params lamp_query"
    "plain_params (lamp_query\<lparr>query_search := Some ''chair''\<rparr>)"
    by (simp_all add: plain_params_def plain_text_def lamp_query_def no_params_def)
  have key: "products_key sample_world lamp_query
      = ''products-lamp-undefined-undefined-undefined-2''"
    by (simp add: products_key_def lamp_query_def no_params_def sample_world_def number_or_def
        sample_Number_def sample_String_def digit_val_def digit_char_def show_nat.simps)
  have differ: "products_key sample_world lamp_query
       \<noteq> products_key sample_world (lamp_query\<lparr>query_search := Some ''chair''\<rparr>)"
    using cache_keys_injective
      [where q = lamp_query and q' = "lamp_query\<lparr>query_search := Some ''chair''\<rparr>"
         and w = sample_world] plain
    by (auto simp: lamp_query_def no_params_def)
  have ids: "order_key ''o1'' \<noteq> order_key ''o2''"
    using cache_keys_injective [where a = "''o1''" and a' = "''o2''"] by simp
  show ?thesis
    using plain plain2 key key2 page2 differ ids by simp
qed

section \<open>Read-through access\<close>

text \<open>
  Claim C1, as stated, fails in three places. On a miss \<^verbatim>\<open>getSingleProduct\<close> neither stores
  nor returns the result of a fallback that finds nothing: it answers 404 and leaves the
  cache as it was. The product listing stores its result for 30 seconds, not for the
  configured time to live. And a cached empty text is a value under the key, yet the
  handler treats it as a miss and reads the store.
\<close>

theorem read_through_counterexample:
  "hit (redis_get (product_key ''nope'') shop_state) = None
   \<and> getSingleProduct sample_world ''nope'' shop_state
       = (NextErr ''Product Not Found'' 404, shop_state)
   \<and> hit (redis_get (products_key sample_world no_params) shop_state) = None
   \<and> map_option snd (cache (snd (getAllProducts sample_world no_params shop_state))
         (products_key sample_world no_params)) = Some 30
   \<and> redisTTL sample_world = 14400
   \<and> cache cached_state ''all-products'' = Some ([], 14400)
   \<and> fst (getAdminProducts sample_world cached_state)
       = Json 200 (ok_with ''products'' (PList [PProduct sample_product, PProduct sample_product2]))"
proof -
  have "hit (redis_get (product_key ''nope'') shop_state) = None"
    "hit (redis_get (products_key sample_world no_params) shop_state) = None"
    by (simp_all add: hit_def redis_get_def shop_state_def)
  moreover have "getSingleProduct sample_world ''nope'' shop_state
       = (NextErr ''Product Not Found'' 404, shop_state)"
    by (simp add: getSingleProduct_def hit_def redis_get_def shop_state_def findById_def
        sample_product_def sample_product2_def)
  moreover have "map_option snd (cache (snd (getAllProducts sample_world no_params shop_state))
         (products_key sample_world no_params)) = Some 30"
    by (simp add: getAllProducts_def hit_def redis_get_def shop_state_def redis_setex_def
        Let_def split: prod.split)
  moreover have "redisTTL sample_world = 14400"
    by (simp add: sample_world_def)
  moreover have "cache cached_state ''all-products'' = Some ([], 14400)"
    by (simp add: cached_state_def product_key_def)
  moreover have "fst (getAdminProducts sample_world cached_state)
       = Json 200 (ok_with ''products'' (PList [PProduct sample_product, PProduct sample_product2]))"
    by (simp add: getAdminProducts_def hit_def redis_get_def cached_state_def product_key_def
        Let_def sample_world_def store_of_def shop_state_def)
  ultimately show ?thesis by simp
qed

lemma getAllProducts_hit:
  "hit (redis_get (products_key w q) st) = Some s \<Longrightarrow>
     getAllProducts w q st =
       ((case JSON_parse w s of
           None \<Rightarrow> Threw
         | Some data \<Rightarrow>
             (case (get_prop data ''totalPage'', get_prop data ''products'') of
                (Some totalPage, Some prods) \<Rightarrow>
                  Json 200 (PObj [(''success'', PVal (JBool True)), (''products'', PVal prods),
                                  (''totalPage'', PVal totalPage)])
              | _ \<Rightarrow> Threw)), st)"
  by (simp add: getAllProducts_def split: option.split)

lemma getAllProducts_miss:
  "hit (redis_get (products_key w q) st) = None \<Longrightarrow>
     getAllProducts w q st =
       (Json 200 (PObj [(''success'', PVal (JBool True)),
                        (''products'', fst (products_page w q st)),
                        (''totalPage'', snd (products_page w q st))]),
        redis_setex (products_key w q) 30
          (JSON_stringify w (PObj [(''products'', fst (products_page w q st)),
                                   (''totalPage'', snd (products_page w q st))])) st)"
  by (simp add: getAllProducts_def split: prod.split)

text \<open>
  Claim C1, amended. Every read endpoint sends the parsed cached value, unchanged state and
  no look at the store, when the cache returns a non-empty text under its key (the
  exception of the parser propagates when the text is not JSON). Otherwise it evaluates its
  fallback on the store, stores the serialised result under the key and sends the result:
  with the configured time to live for all endpoints but the product listing, which stores
  for 30 seconds; and \<^verbatim>\<open>getSingleProduct\<close> and \<^verbatim>\<open>getSingleOrder\<close> answer 404 and store
  nothing when the fallback finds no document. \<^verbatim>\<open>myOrders\<close> and \<^verbatim>\<open>getSingleOrder\<close> reach
  the cache only with a non-empty id.
\<close>

theorem read_endpoints_read_through:
  "read_through_contract w (getlatestProducts w st) ''latest-products'' (redisTTL w)
      ''products'' (PList (Model_find w Product_find_latest (store_of st))) st
   \<and> read_through_contract w (getAllCategories w st) ''categories'' (redisTTL w)
      ''categories'' (PList (Model_find w Product_distinct_category (store_of st))) st
   \<and> read_through_contract w (getAdminProducts w st) ''all-products'' (redisTTL w)
      ''products'' (PList (Model_find w Product_find_all (store_of st))) st
   \<and> read_through_contract w (allReviewsOfProduct w ident st) (reviews_key ident) (redisTTL w)
      ''reviews'' (PList (Model_find w (Review_find_product ident) (store_of st))) st
   \<and> read_through_contract w (allOrders w st) ''all-orders'' (redisTTL w)
      ''orders'' (PList (Model_find w Order_find_all (store_of st))) st
   \<and> (\<not> truthy (js_str userId) \<longrightarrow> myOrders w userId st = (NextErr ''Invalid user ID'' 400, st))
   \<and> (getSingleOrder w [] st = (NextErr ''Order ID is required'' 400, st))
   \<and> (truthy (js_str userId) \<longrightarrow>
        read_through_contract w (myOrders w userId st) (my_orders_key userId) (redisTTL w)
          ''orders'' (PList (Model_find w (Order_find_user (tmpl userId)) (store_of st))) st)
   \<and> (findById p_id ident (products st) = Some (i, p) \<longrightarrow>
        read_through_contract w (getSingleProduct w ident st) (product_key ident) (redisTTL w)
          ''product'' (PProduct p) st)
   \<and> (findById p_id ident (products st) = None \<longrightarrow>
        (case hit (redis_get (product_key ident) st) of
           Some s \<Rightarrow> getSingleProduct w ident st =
               ((case JSON_parse w s of None \<Rightarrow> Threw
                 | Some v \<Rightarrow> Json 200 (ok_with ''product'' (PVal v))), st)
         | None \<Rightarrow> getSingleProduct w ident st = (NextErr ''Product Not Found'' 404, st)))
   \<and> (ident \<noteq> [] \<and> findById o_id ident (orders st) = Some (j, ord) \<longrightarrow>
        read_through_contract w (getSingleOrder w ident st) (order_key ident) (redisTTL w)
          ''order'' (populate w ''user'' ''name'' (store_of st) (POrder ord)) st)
   \<and> (ident \<noteq> [] \<and> findById o_id ident (orders st) = None \<longrightarrow>
        (case hit (redis_get (order_key ident) st) of
           Some s \<Rightarrow> getSingleOrder w ident st =
               ((case JSON_parse w s of None \<Rightarrow> Threw
                 | Some v \<Rightarrow> Json 200 (ok_with ''order'' (PVal v))), st)
         | None \<Rightarrow> getSingleOrder w ident st = (NextErr ''Order not found'' 404, st)))
   \<and> (case hit (redis_get (products_key w q) st) of
         Some s \<Rightarrow> getAllProducts w q st =
           ((case JSON_parse w s of
               None \<Rightarrow> Threw
             | Some data \<Rightarrow>
                 (case (get_prop data ''totalPage'', get_prop data ''products'') of
                    (Some totalPage, Some prods) \<Rightarrow>
                      Json 200 (PObj [(''success'', PVal (JBool True)), (''products'', PVal prods),
                                      (''totalPage'', PVal totalPage)])
                  | _ \<Rightarrow> Threw)), st)
       | None \<Rightarrow> getAllProducts w q st =
           (Json 200 (PObj [(''success'', PVal (JBool True)),
                            (''products'', fst (products_page w q st)),
                            (''totalPage'', snd (products_page w q st))]),
            redis_setex (products_key w q) 30
              (JSON_stringify w (PObj [(''products'', fst (products_page w q st)),
                                       (''totalPage'', snd (products_page w q st))])) st))"
proof (intro conjI impI)
  show "read_through_contract w (getlatestProducts w st) ''latest-products'' (redisTTL w)
      ''products'' (PList (Model_find w Product_find_latest (store_of st))) st"
    by (simp add: read_through_contract_def getlatestProducts_def send_parsed_def Let_def
        split: option.split)
  show "read_through_contract w (getAllCategories w st) ''categories'' (redisTTL w)
      ''categories'' (PList (Model_find w Product_distinct_category (store_of st))) st"
    by (simp add: read_through_contract_def getAllCategories_def send_parsed_def Let_def
        split: option.split)
  show "read_through_contract w (getAdminProducts w st) ''all-products'' (redisTTL w)
      ''products'' (PList (Model_find w Product_find_all (store_of st))) st"
    by (simp add: read_through_contract_def getAdminProducts_def send_parsed_def Let_def
        split: option.split)
  show "read_through_contract w (allReviewsOfProduct w ident st) (reviews_key ident) (redisTTL w)
      ''reviews'' (PList (Model_find w (Review_find_product ident) (store_of st))) st"
    by (simp add: read_through_contract_def allReviewsOfProduct_def send_parsed_def Let_def
        split: option.split)
  show "read_through_contract w (allOrders w st) ''all-orders'' (redisTTL w)
      ''orders'' (PList (Model_find w Order_find_all (store_of st))) st"
    by (simp add: read_through_contract_def allOrders_def send_parsed_def Let_def
        split: option.split)
  show "myOrders w userId st = (NextErr ''Invalid user ID'' 400, st)"
    if "\<not> truthy (js_str userId)"
    using that by (simp add: myOrders_def)
  show "getSingleOrder w [] st = (NextErr ''Order ID is required'' 400, st)"
    by (simp add: getSingleOrder_def)
  show "read_through_contract w (myOrders w userId st) (my_orders_key userId) (redisTTL w)
      ''orders'' (PList (Model_find w (Order_find_user (tmpl userId)) (store_of st))) st"
    if "truthy (js_str userId)"
    using that
    by (simp add: read_through_contract_def myOrders_def send_parsed_def Let_def
        split: option.split)
  show "read_through_contract w (getSingleProduct w ident st) (product_key ident) (redisTTL w)
      ''product'' (PProduct p) st"
    if "findById p_id ident (products st) = Some (i, p)"
    using that
    by (simp add: read_through_contract_def getSingleProduct_def send_parsed_def Let_def
        split: option.split)
  show "case hit (redis_get (product_key ident) st) of
           Some s \<Rightarrow> getSingleProduct w ident st =
               ((case JSON_parse w s of None \<Rightarrow> Threw
                 | Some v \<Rightarrow> Json 200 (ok_with ''product'' (PVal v))), st)
         | None \<Rightarrow> getSingleProduct w ident st = (NextErr ''Product Not Found'' 404, st)"
    if "findById p_id ident (products st) = None"
    using that
    by (simp add: getSingleProduct_def send_parsed_def Let_def split: option.split)
  show "read_through_contract w (getSingleOrder w ident st) (order_key ident) (redisTTL w)
      ''order'' (populate w ''user'' ''name'' (store_of st) (POrder ord)) st"
    if "ident \<noteq> [] \<and> findById o_id ident (orders st) = Some (j, ord)"
    using that
    by (simp add: read_through_contract_def getSingleOrder_def send_parsed_def Let_def
        split: option.split)
  show "case hit (redis_get (order_key ident) st) of
           Some s \<Rightarrow> getSingleOrder w ident st =
               ((case JSON_parse w s of None \<Rightarrow> Threw
                 | Some v \<Rightarrow> Json 200 (ok_with ''order'' (PVal v))), st)
         | None \<Rightarrow> getSingleOrder w ident st = (NextErr ''Order not found'' 404, st)"
    if "ident \<noteq> [] \<and> findById o_id ident (orders st) = None"
    using that
    by (simp add: getSingleOrder_def send_parsed_def Let_def split: option.split)
  show "case hit (redis_get (products_key w q) st) of
         Some s \<Rightarrow> getAllProducts w q st =
           ((case JSON_parse w s of
               None \<Rightarrow> Threw
             | Some data \<Rightarrow>
                 (case (get_prop data ''totalPage'', get_prop data ''products'') of
                    (Some totalPage, Some prods) \<Rightarrow>
                      Json 200 (PObj [(''success'', PVal (JBool True)), (''products'', PVal prods),
                                      (''totalPage'', PVal totalPage)])
                  | _ \<Rightarrow> Threw)), st)
       | None \<Rightarrow> getAllProducts w q st =
           (Json 200 (PObj [(''success'', PVal (JBool True)),
                            (''products'', fst (products_page w q st)),
                            (''totalPage'', snd (products_page w q st))]),
            redis_setex (products_key w q) 30
              (JSON_stringify w (PObj [(''products'', fst (products_page w q st)),
                                       (''totalPage'', snd (products_page w q st))])) st)"
    using getAllProducts_hit [of w q st] getAllProducts_miss [of w q st]
    by (cases "hit (redis_get (products_key w q) st)") simp_all
qed

lemma sample_keys:
  "products_key sample_world no_params = ''products-undefined-undefined-undefined-undefined-1''"
  by (simp add: products_key_def no_params_def sample_world_def number_or_def
        sample_Number_def sample_String_def digit_char_def show_nat.simps)

lemma cached_state_hits:
  "hit (redis_get (product_key ''p1'') cached_state) = Some ''{}''"
  "hit (redis_get (product_key ''gone'') cached_state) = Some ''null''"
  "hit (redis_get (order_key ''o1'') cached_state) = Some ''{}''"
  "hit (redis_get (my_orders_key (Some ''u1'')) cached_state) = Some ''[]''"
  "hit (redis_get (products_key sample_world no_params) cached_state) = Some ''{}''"
  "hit (redis_get ''all-products'' cached_state) = None"
  "hit (redis_get (product_key ''zz'') cached_state) = None"
  by (simp_all add: hit_def redis_get_def cached_state_def sample_keys product_key_def
      order_key_def my_orders_key_def)

lemma shop_state_misses: "hit (redis_get k shop_state) = None"
  by (simp add: hit_def redis_get_def shop_state_def)

lemma shop_state_docs:
  "findById p_id ''p1'' (products shop_state) = Some (0, sample_product)"
  "findById p_id ''gone'' (products shop_state) = None"
  "findById p_id ''zz'' (products shop_state) = None"
  "findById o_id ''o1'' (orders shop_state) = Some (0, sample_order)"
  "findById o_id ''zz'' (orders shop_state) = None"
  by (simp_all add: findById_def shop_state_def sample_product_def sample_product2_def
      sample_order_def)

lemma cached_state_docs:
  "products cached_state = products shop_state" "orders cached_state = orders shop_state"
  by (simp_all add: cached_state_def)

theorem read_endpoints_read_through_witness:
  "truthy (js_str (Some ''u1''))
   \<and> myOrders sample_world (Some ''u1'') cached_state
       = (Json 200 (ok_with ''orders'' (PVal (JArr []))), cached_state)
   \<and> \<not> truthy (js_str (Some []))
   \<and> myOrders sample_world (Some []) shop_state = (NextErr ''Invalid user ID'' 400, shop_state)
   \<and> findById p_id ''p1'' (products shop_state) = Some (0, sample_product)
   \<and> getSingleProduct sample_world ''p1'' shop_state
       = (Json 200 (ok_with ''product'' (PProduct sample_product)),
          redis_setex (product_key ''p1'') 14400 ''{\"_id\":\"p1\"}'' shop_state)
   \<and> getSingleProduct sample_world ''p1'' cached_state
       = (Json 200 (ok_with ''product'' (PVal (JObj []))), cached_state)
   \<and> findById p_id ''gone'' (products cached_state) = None
   \<and> getSingleProduct sample_world ''gone'' cached_state
       = (Json 200 (ok_with ''product'' (PVal JNull)), cached_state)
   \<and> getSingleProduct sample_world ''gone'' shop_state
       = (NextErr ''Product Not Found'' 404, shop_state)
   \<and> ''o1'' \<noteq> [] \<and> findById o_id ''o1'' (orders shop_state) = Some (0, sample_order)
   \<and> getSingleOrder sample_world ''o1'' shop_state
       = (Json 200 (ok_with ''order'' (POrder sample_order)),
          redis_setex (order_key ''o1'') 14400 ''{\"_id\":\"o1\"}'' shop_state)
   \<and> getSingleOrder sample_world ''o1'' cached_state
       = (Json 200 (ok_with ''order'' (PVal (JObj []))), cached_state)
   \<and> ''zz'' \<noteq> [] \<and> findById o_id ''zz'' (orders shop_state) = None
   \<and> getSingleOrder sample_world ''zz'' shop_state = (NextErr ''Order not found'' 404, shop_state)
   \<and> snd (getAllProducts sample_world no_params shop_state)
       = redis_setex (products_key sample_world no_params) 30
           (JSON_stringify sample_world
              (PObj [(''products'', fst (products_page sample_world no_params shop_state)),
                     (''totalPage'', snd (products_page sample_world no_params shop_state))]))
           shop_state"
proof -
  note t = read_endpoints_read_through [where w = sample_world]
  have m1: "myOrders sample_world (Some ''u1'') cached_state
       = (Json 200 (ok_with ''orders'' (PVal (JArr []))), cached_state)"
    using t [where userId = "Some ''u1''" and st = cached_state]
    by (simp add: read_through_contract_def cached_state_hits sample_world_def sample_parse_def)
  have m2: "myOrders sample_world (Some []) shop_state
      = (NextErr ''Invalid user ID'' 400, shop_state)"
    using t [where userId = "Some []" and st = shop_state] by simp
  have p1: "getSingleProduct sample_world ''p1'' shop_state
       = (Json 200 (ok_with ''product'' (PProduct sample_product)),
          redis_setex (product_key ''p1'') 14400 ''{\"_id\":\"p1\"}'' shop_state)"
    using t [where ident = "''p1''" and st = shop_state and i = 0 and p = sample_product]
    by (simp add: read_through_contract_def shop_state_misses shop_state_docs sample_world_def
        sample_product_def)
  have p2: "getSingleProduct sample_world ''p1'' cached_state
       = (Json 200 (ok_with ''product'' (PVal (JObj []))), cached_state)"
    using t [where ident = "''p1''" and st = cached_state and i = 0 and p = sample_product]
    by (simp add: read_through_contract_def cached_state_hits shop_state_docs cached_state_docs
        sample_world_def sample_parse_def)
  have p3: "getSingleProduct sample_world ''gone'' cached_state
       = (Json 200 (ok_with ''product'' (PVal JNull)), cached_state)"
    using t [where ident = "''gone''" and st = cached_state]
    by (simp add: cached_state_hits shop_state_docs cached_state_docs sample_world_def
        sample_parse_def)
  have p4: "getSingleProduct sample_world ''gone'' shop_state
       = (NextErr ''Product Not Found'' 404, shop_state)"
    using t [where ident = "''gone''" and st = shop_state]
    by (simp add: shop_state_misses shop_state_docs)
  have o1: "getSingleOrder sample_world ''o1'' shop_state
       = (Json 200 (ok_with ''order'' (POrder sample_order)),
          redis_setex (order_key ''o1'') 14400 ''{\"_id\":\"o1\"}'' shop_state)"
    using t [where ident = "''o1''" and st = shop_state and j = 0 and ord = sample_order]
    by (simp add: read_through_contract_def shop_state_misses shop_state_docs sample_world_def
        sample_order_def)
  have o2: "getSingleOrder sample_world ''o1'' cached_state
       = (Json 200 (ok_with ''order'' (PVal (JObj []))), cached_state)"
    using t [where ident = "''o1''" and st = cached_state and j = 0 and ord = sample_order]
    by (simp add: read_through_contract_def cached_state_hits shop_state_docs cached_state_docs
        sample_world_def sample_parse_def)
  have o3: "getSingleOrder sample_world ''zz'' shop_state
      = (NextErr ''Order not found'' 404, shop_state)"
    using t [where ident = "''zz''" and st = shop_state]
    by (simp add: shop_state_misses shop_state_docs)
  have l1: "snd (getAllProducts sample_world no_params shop_state)
       = redis_setex (products_key sample_world no_params) 30
           (JSON_stringify sample_world
              (PObj [(''products'', fst (products_page sample_world no_params shop_state)),
                     (''totalPage'', snd (products_page sample_world no_params shop_state))]))
           shop_state"
    using t [where q = no_params and st = shop_state]
    by (simp add: shop_state_misses)
  show ?thesis
    using m1 m2 p1 p2 p3 p4 o1 o2 o3 l1
    by (simp add: shop_state_docs cached_state_docs)
qed

section \<open>Not found, and what the cache still serves\<close>

text \<open>
  Claim C10, as stated, fails in two places. \<^verbatim>\<open>getSingleOrder\<close> given the empty id, which
  neither the cache nor the store holds, answers 400, not 404. And \<^verbatim>\<open>getSingleProduct\<close>
  answers 404 for an id whose key is in the cache with the empty text as its value, when the
  store has no such product.
\<close>

theorem single_document_counterexample:
  "cache empty_state (order_key []) = None
   \<and> findById o_id [] (orders empty_state) = None
   \<and> getSingleOrder sample_world [] empty_state
       = (NextErr ''Order ID is required'' 400, empty_state)
   \<and> cache cached_state (product_key ''zz'') = Some ([], 14400)
   \<and> findById p_id ''zz'' (products cached_state) = None
   \<and> getSingleProduct sample_world ''zz'' cached_state
       = (NextErr ''Product Not Found'' 404, cached_state)"
proof -
  have "getSingleProduct sample_world ''zz'' cached_state
       = (NextErr ''Product Not Found'' 404, cached_state)"
    by (simp add: getSingleProduct_def cached_state_hits cached_state_docs shop_state_docs)
  moreover have "cache cached_state (product_key ''zz'') = Some ([], 14400)"
    by (simp add: cached_state_def)
  moreover have "findById p_id ''zz'' (products cached_state) = None"
    by (simp add: cached_state_docs shop_state_docs)
  moreover have "findById o_id [] (orders empty_state) = None"
    "cache empty_state (order_key []) = None"
    by (simp_all add: empty_state_def findById_def)
  moreover have "getSingleOrder sample_world [] empty_state
       = (NextErr ''Order ID is required'' 400, empty_state)"
    by (simp add: getSingleOrder_def)
  ultimately show ?thesis
    by simp
qed

lemma getSingleProduct_hit:
  "hit (redis_get (product_key ident) st) = Some s \<Longrightarrow>
     getSingleProduct w ident st =
       ((case JSON_parse w s of None \<Rightarrow> Threw
         | Some v \<Rightarrow> Json 200 (ok_with ''product'' (PVal v))), st)"
  by (simp add: getSingleProduct_def send_parsed_def split: option.split)

lemma getSingleOrder_hit:
  "ident \<noteq> [] \<Longrightarrow> hit (redis_get (order_key ident) st) = Some s \<Longrightarrow>
     getSingleOrder w ident st =
       ((case JSON_parse w s of None \<Rightarrow> Threw
         | Some v \<Rightarrow> Json 200 (ok_with ''order'' (PVal v))), st)"
  by (simp add: getSingleOrder_def send_parsed_def split: option.split)

lemma getSingleProduct_404:
  "error_status (fst (getSingleProduct w ident st)) = Some 404 \<longleftrightarrow>
     hit (redis_get (product_key ident) st) = None \<and> findById p_id ident (products st) = None"
  by (auto simp: getSingleProduct_def send_parsed_def Let_def split: option.splits)

lemma getSingleOrder_404:
  "error_status (fst (getSingleOrder w ident st)) = Some 404 \<longleftrightarrow>
     ident \<noteq> [] \<and> hit (redis_get (order_key ident) st) = None
     \<and> findById o_id ident (orders st) = None"
  by (auto simp: getSingleOrder_def send_parsed_def Let_def split: option.splits)

text \<open>
  Claim C10, amended. \<^verbatim>\<open>getSingleProduct\<close> answers 404 exactly when the cache returns no
  non-empty value under the key of the id and the store holds no product with that id.
  \<^verbatim>\<open>getSingleOrder\<close> answers 404 exactly when, in addition, the id is not empty; an empty
  id is answered with 400. On a cache hit the parsed value is sent with \<^verbatim>\<open>success\<close> true
  whatever the store holds, so also when the document is gone from the store.
\<close>

theorem single_document_not_found:
  "(error_status (fst (getSingleProduct w ident st)) = Some 404 \<longleftrightarrow>
      hit (redis_get (product_key ident) st) = None \<and> findById p_id ident (products st) = None)
   \<and> (error_status (fst (getSingleOrder w ident st)) = Some 404 \<longleftrightarrow>
      ident \<noteq> [] \<and> hit (redis_get (order_key ident) st) = None
      \<and> findById o_id ident (orders st) = None)
   \<and> (ident = [] \<longrightarrow> getSingleOrder w ident st = (NextErr ''Order ID is required'' 400, st))
   \<and> (hit (redis_get (product_key ident) st) = Some s \<and> JSON_parse w s = Some v \<longrightarrow>
        (\<forall>ps. getSingleProduct w ident (st\<lparr>products := ps\<rparr>)
               = (Json 200 (ok_with ''product'' (PVal v)), st\<lparr>products := ps\<rparr>)))
   \<and> (ident \<noteq> [] \<and> hit (redis_get (order_key ident) st) = Some s \<and> JSON_parse w s = Some v \<longrightarrow>
        (\<forall>os. getSingleOrder w ident (st\<lparr>orders := os\<rparr>)
               = (Json 200 (ok_with ''order'' (PVal v)), st\<lparr>orders := os\<rparr>)))"
proof (intro conjI impI allI)
  show "error_status (fst (getSingleProduct w ident st)) = Some 404 \<longleftrightarrow>
      hit (redis_get (product_key ident) st) = None \<and> findById p_id ident (products st) = None"
    by (rule getSingleProduct_404)
  show "error_status (fst (getSingleOrder w ident st)) = Some 404 \<longleftrightarrow>
      ident \<noteq> [] \<and> hit (redis_get (order_key ident) st) = None
      \<and> findById o_id ident (orders st) = None"
    by (rule getSingleOrder_404)
  show "getSingleOrder w ident st = (NextErr ''Order ID is required'' 400, st)" if "ident = []"
    using that by (simp add: getSingleOrder_def)
  show "getSingleProduct w ident (st\<lparr>products := ps\<rparr>)
      = (Json 200 (ok_with ''product'' (PVal v)), st\<lparr>products := ps\<rparr>)"
    if "hit (redis_get (product_key ident) st) = Some s \<and> JSON_parse w s = Some v" for ps
  proof -
    from that have "hit (redis_get (product_key ident) (st\<lparr>products := ps\<rparr>)) = Some s"
      by (simp add: redis_get_def)
    from getSingleProduct_hit [OF this] that show ?thesis by simp
  qed
  show "getSingleOrder w ident (st\<lparr>orders := os\<rparr>)
      = (Json 200 (ok_with ''order'' (PVal v)), st\<lparr>orders := os\<rparr>)"
    if "ident \<noteq> [] \<and> hit (redis_get (order_key ident) st) = Some s \<and> JSON_parse w s = Some v"
    for os
  proof -
    from that have "hit (redis_get (order_key ident) (st\<lparr>orders := os\<rparr>)) = Some s"
      and "ident \<noteq> []"
      by (simp_all add: redis_get_def)
    from getSingleOrder_hit [OF this(2,1)] that show ?thesis by simp
  qed
qed


theorem single_document_not_found_witness:
  "hit (redis_get (product_key ''zz'') shop_state) = None
   \<and> findById p_id ''zz'' (products shop_state) = None
   \<and> error_status (fst (getSingleProduct sample_world ''zz'' shop_state)) = Some 404
   \<and> ''zz'' \<noteq> [] \<and> hit (redis_get (order_key ''zz'') shop_state) = None
   \<and> findById o_id ''zz'' (orders shop_state) = None
   \<and> error_status (fst (getSingleOrder sample_world ''zz'' shop_state)) = Some 404
   \<and> getSingleOrder sample_world [] shop_state
       = (NextErr ''Order ID is required'' 400, shop_state)
   \<and> hit (redis_get (product_key ''p1'') cached_state) = Some ''{}''
   \<and> JSON_parse sample_world ''{}'' = Some (JObj [])
   \<and> getSingleProduct sample_world ''p1'' (cached_state\<lparr>products := []\<rparr>)
       = (Json 200 (ok_with ''product'' (PVal (JObj []))), cached_state\<lparr>products := []\<rparr>)
   \<and> error_status (fst (getSingleProduct sample_world ''p1'' cached_state)) \<noteq> Some 404
   \<and> ''o1'' \<noteq> [] \<and> hit (redis_get (order_key ''o1'') cached_state) = Some ''{}''
   \<and> getSingleOrder sample_world ''o1'' (cached_state\<lparr>orders := []\<rparr>)
       = (Json 200 (ok_with ''order'' (PVal (JObj []))), cached_state\<lparr>orders := []\<rparr>)"
proof -
  have parse: "JSON_parse sample_world ''{}'' = Some (JObj [])"
    by (simp add: sample_world_def sample_parse_def)
  note absent = single_document_not_found
    [where w = sample_world and ident = "''zz''" and st = shop_state]
  note empty = single_document_not_found
    [where w = sample_world and ident = "[]" and st = shop_state]
  note prod_hit = single_document_not_found
    [where w = sample_world and ident = "''p1''" and st = cached_state and s = "''{}''"
       and v = "JObj []"]
  note ord_hit = single_document_not_found
    [where w = sample_world and ident = "''o1''" and st = cached_state and s = "''{}''"
       and v = "JObj []"]
  have a: "error_status (fst (getSingleProduct sample_world ''zz'' shop_state)) = Some 404"
    "error_status (fst (getSingleOrder sample_world ''zz'' shop_state)) = Some 404"
    using absent by (simp_all add: shop_state_misses shop_state_docs)
  have e: "getSingleOrder sample_world [] shop_state
       = (NextErr ''Order ID is required'' 400, shop_state)"
    using empty by simp
  have p: "getSingleProduct sample_world ''p1'' (cached_state\<lparr>products := []\<rparr>)
       = (Json 200 (ok_with ''product'' (PVal (JObj []))), cached_state\<lparr>products := []\<rparr>)"
    "error_status (fst (getSingleProduct sample_world ''p1'' cached_state)) \<noteq> Some 404"
    using prod_hit parse by (simp_all add: cached_state_hits)
  have ord: "getSingleOrder sample_world ''o1'' (cached_state\<lparr>orders := []\<rparr>)
       = (Json 200 (ok_with ''order'' (PVal (JObj []))), cached_state\<lparr>orders := []\<rparr>)"
    using ord_hit parse by (simp add: cached_state_hits)
  show ?thesis
    using a e p ord parse
    by (simp add: shop_state_misses shop_state_docs cached_state_hits)
qed

end
